theory Spec2Isabelle
  imports Complex_Main
begin

section \<open>ECB exchange rates client: SDMX-JSON decoder and client facade\<close>

text \<open>
  A shallow embedding of \<^verbatim>\<open>src/parsers/sdmx-json-parser.ts\<close> (the decoder),
  \<^verbatim>\<open>src/utils/validation.ts\<close>, \<^verbatim>\<open>src/errors/index.ts\<close> and \<^verbatim>\<open>src/client.ts\<close>
  (the facade).

  Conventions.
  \<^item> A thrown exception is the left summand of \<open>error + 'a\<close>.
  \<^item> \<^verbatim>\<open>undefined\<close> (an absent property, an array read out of range) is \<open>None\<close>.
    Every property on the path from the document to a dimension's values may be
    absent in the model (\<^verbatim>\<open>dataSets\<close>, \<^verbatim>\<open>structure\<close>, \<^verbatim>\<open>dimensions\<close>, its two
    arrays \<^verbatim>\<open>series\<close> and \<^verbatim>\<open>observation\<close>, \<^verbatim>\<open>values\<close>, a value's \<^verbatim>\<open>id\<close>), and so may
    the \<^verbatim>\<open>series\<close> of a data set: the parsed text is cast to the declared type
    without a check. The content of the data sets follows the declared type.
  \<^item> A JavaScript object used as a dictionary (\<^verbatim>\<open>Record<string, T>\<close>) is the list of
    its entries in the order \<^verbatim>\<open>Object.entries\<close> enumerates them; a \<^verbatim>\<open>Map\<close> is
    the list of its entries in insertion order.
  \<^item> JavaScript numbers that the code only copies (the rates in the decoder and
    in the result maps) are a type parameter \<open>'n\<close>. \<^verbatim>\<open>convert\<close>, which computes
    with them, is modelled on IEEE-754 doubles, each the real number it denotes.
  \<^item> Built-ins of the runtime whose result depends on the grammar of numbers or
    of JSON (\<^verbatim>\<open>Number\<close>, \<^verbatim>\<open>JSON.parse\<close>) and the HTTP transport are parameters of
    the functions that call them, so that every general theorem holds for the
    real built-in.
\<close>

subsection \<open>Errors (\<^verbatim>\<open>src/errors/index.ts\<close>)\<close>

text \<open>
  One constructor per error class, carrying the constructor arguments.
  \<open>TypeError\<close> is the runtime's own error for calling a method of \<^verbatim>\<open>undefined\<close>
  or destructuring it.
\<close>

datatype error =
    EcbApiError nat string string
  | EcbNetworkError string
  | EcbParseError string
  | EcbValidationError string
  | EcbNoDataError "string list" string "string option"
  | TypeError

subsection \<open>Data model (\<^verbatim>\<open>src/types/index.ts\<close>)\<close>

record 'n ExchangeRateObservation =
  date :: string
  currency :: string
  baseCurrency :: string
  rate :: 'n

text \<open>
  The SDMX-JSON shapes, restricted to the properties the decoder reads.
  \<open>valueId\<close> is \<^verbatim>\<open>SdmxValue.id\<close> (declared optional); \<open>dimId\<close> and \<open>dimValues\<close> are
  \<^verbatim>\<open>SdmxDimension.id\<close> and \<^verbatim>\<open>SdmxDimension.values\<close> (the decoder tests the latter
  for absence); \<open>seriesDimensions\<close> and \<open>observationDimensions\<close> are the arrays
  \<^verbatim>\<open>dimensions.series\<close> and \<^verbatim>\<open>dimensions.observation\<close>, which the decoder reads
  without a test. An observation tuple is a list of \<^verbatim>\<open>number | null\<close>, \<open>None\<close>
  being \<^verbatim>\<open>null\<close>.
\<close>

record SdmxValue =
  valueId :: "string option"

record SdmxDimension =
  dimId :: string
  dimValues :: "SdmxValue list option"

record 'n SdmxSeries =
  observations :: "(string \<times> 'n option list) list"

record 'n SdmxDataSet =
  series :: "(string \<times> 'n SdmxSeries) list option"

record SdmxDimensions =
  seriesDimensions :: "SdmxDimension list option"
  observationDimensions :: "SdmxDimension list option"

record SdmxStructure =
  dimensions :: "SdmxDimensions option"

record 'n SdmxJsonResponse =
  dataSets :: "'n SdmxDataSet list option"
  structureOf :: "SdmxStructure option"

subsection \<open>JavaScript primitives used by the decoder\<close>

text \<open>\<^verbatim>\<open>arr[i]\<close> for a non-negative integer \<open>i\<close>: \<^verbatim>\<open>undefined\<close> out of range.\<close>

fun arrayGet :: "'a list \<Rightarrow> nat \<Rightarrow> 'a option" where
  "arrayGet [] i = None"
| "arrayGet (x # xs) 0 = Some x"
| "arrayGet (x # xs) (Suc i) = arrayGet xs i"

text \<open>
  \<^verbatim>\<open>arr[n]\<close> for a JavaScript number \<open>n\<close>. A number is represented by what an
  array subscript sees of it: \<open>Some i\<close> when it is the non-negative integer \<open>i\<close>
  (\<^verbatim>\<open>-0\<close> counting as 0), \<open>None\<close> when it is anything else (\<^verbatim>\<open>NaN\<close>, negative,
  fractional, infinite), in which case the read yields \<^verbatim>\<open>undefined\<close>.
\<close>

definition arrayGetNum :: "'a list \<Rightarrow> nat option \<Rightarrow> 'a option" where
  "arrayGetNum arr n = (case n of None \<Rightarrow> None | Some i \<Rightarrow> arrayGet arr i)"

text \<open>\<^verbatim>\<open>s.split(":")\<close>: never empty; the empty string gives one empty segment.\<close>

fun split_colon :: "string \<Rightarrow> string list" where
  "split_colon [] = [[]]"
| "split_colon (c # cs) =
     (if c = CHR '':'' then [] # split_colon cs
      else (case split_colon cs of
              [] \<Rightarrow> [[c]]
            | s # ss \<Rightarrow> (c # s) # ss))"

text \<open>\<^verbatim>\<open>!s\<close> for \<^verbatim>\<open>s: string | undefined\<close>: true for \<^verbatim>\<open>undefined\<close> and for \<^verbatim>\<open>""\<close>.\<close>

definition falsy :: "string option \<Rightarrow> bool" where
  "falsy s = (case s of None \<Rightarrow> True | Some t \<Rightarrow> t = [])"

text \<open>
  \<^verbatim>\<open>Array.prototype.findIndex\<close>: the index of the first element satisfying the
  predicate, counting from \<open>k\<close>; \<open>-1\<close> when there is none.
\<close>

fun findIndexFrom :: "('a \<Rightarrow> bool) \<Rightarrow> 'a list \<Rightarrow> int \<Rightarrow> int" where
  "findIndexFrom p [] k = - 1"
| "findIndexFrom p (x # xs) k = (if p x then k else findIndexFrom p xs (k + 1))"

definition findIndex :: "('a \<Rightarrow> bool) \<Rightarrow> 'a list \<Rightarrow> int" where
  "findIndex p xs = findIndexFrom p xs 0"

text \<open>
  A decimal reading of \<^verbatim>\<open>Number(s)\<close> as an array subscript, used only to
  evaluate the decoder on concrete documents: exact on strings of decimal digits
  (and on the empty string, which \<^verbatim>\<open>Number\<close> reads as 0) and on strings with a
  character that no numeric literal contains (\<^verbatim>\<open>NaN\<close>, hence \<open>None\<close>). Other
  spellings that ECMAScript accepts (signs, fractions, exponents, radix
  prefixes, surrounding white space) are outside its domain; no concrete
  document below uses them, and the general theorems quantify over every
  reading.
\<close>

definition digitValue :: "char \<Rightarrow> nat option" where
  "digitValue c =
     (let n = (of_char c :: nat) in if 48 \<le> n \<and> n \<le> 57 then Some (n - 48) else None)"

fun decimalFrom :: "nat \<Rightarrow> string \<Rightarrow> nat option" where
  "decimalFrom acc [] = Some acc"
| "decimalFrom acc (c # cs) =
     (case digitValue c of None \<Rightarrow> None | Some d \<Rightarrow> decimalFrom (10 * acc + d) cs)"

definition decimalIndex :: "string \<Rightarrow> nat option" where
  "decimalIndex s = decimalFrom 0 s"

subsection \<open>The decoder (\<^verbatim>\<open>src/parsers/sdmx-json-parser.ts\<close>)\<close>

definition quoted :: "string \<Rightarrow> string" where
  "quoted s = [CHR 0x22] @ s @ [CHR 0x22]"

definition findDimensionIndex :: "SdmxDimension list \<Rightarrow> string \<Rightarrow> error + nat" where
  "findDimensionIndex dims ident =
     (let index = findIndex (\<lambda>d. dimId d = ident) dims in
      if index = - 1
      then Inl (EcbParseError
             (''Missing series dimension '' @ quoted ident @ '' in SDMX-JSON structure.''))
      else Inr (nat index))"

definition findObservationDimensionIndex :: "SdmxDimension list \<Rightarrow> string \<Rightarrow> error + nat" where
  "findObservationDimensionIndex dims ident =
     (let index = findIndex (\<lambda>d. dimId d = ident) dims in
      if index = - 1
      then Inl (EcbParseError
             (''Missing observation dimension '' @ quoted ident @ '' in SDMX-JSON structure.''))
      else Inr (nat index))"

text \<open>\<^verbatim>\<open>dims[i]?.values\<close>\<close>

definition valuesAt :: "SdmxDimension list \<Rightarrow> nat \<Rightarrow> SdmxValue list option" where
  "valuesAt dims i = (case arrayGet dims i of None \<Rightarrow> None | Some d \<Rightarrow> dimValues d)"

text \<open>\<^verbatim>\<open>vocabulary[n]?.id\<close>\<close>

definition idAt :: "SdmxValue list \<Rightarrow> nat option \<Rightarrow> string option" where
  "idAt vocabulary n = (case arrayGetNum vocabulary n of None \<Rightarrow> None | Some v \<Rightarrow> valueId v)"

text \<open>
  The body of the innermost loop (source lines 63--71). The accumulator is the
  \<^verbatim>\<open>observations\<close> array; \<^verbatim>\<open>push\<close> appends. \<open>toNumber\<close> is \<^verbatim>\<open>Number\<close>.
  \<^verbatim>\<open>obsValues[0]\<close> is \<^verbatim>\<open>undefined\<close> on the empty tuple and \<^verbatim>\<open>null\<close> on \<open>None\<close>.
\<close>

definition processObservation ::
  "(string \<Rightarrow> nat option) \<Rightarrow> SdmxValue list \<Rightarrow> string \<Rightarrow> string \<Rightarrow>
   'n ExchangeRateObservation list \<Rightarrow> string \<times> 'n option list \<Rightarrow>
   'n ExchangeRateObservation list" where
  "processObservation toNumber timeValues cur base acc entry =
     (case entry of (obsKey, obsValues) \<Rightarrow>
        (let timeIdx = toNumber obsKey;
             dateOpt = idAt timeValues timeIdx;
             rateOpt = arrayGet obsValues 0
         in if falsy dateOpt \<or> rateOpt = Some None \<or> rateOpt = None then acc
            else acc @ [\<lparr> date = the dateOpt, currency = cur, baseCurrency = base,
                          rate = the (the rateOpt) \<rparr>]))"

text \<open>The body of the loop over the series of a data set (source lines 48--72).\<close>

definition processSeries ::
  "(string \<Rightarrow> nat option) \<Rightarrow> nat \<Rightarrow> nat \<Rightarrow> SdmxValue list \<Rightarrow> SdmxValue list \<Rightarrow>
   SdmxValue list \<Rightarrow> 'n ExchangeRateObservation list \<Rightarrow> string \<times> 'n SdmxSeries \<Rightarrow>
   'n ExchangeRateObservation list" where
  "processSeries toNumber currencyDimIndex denomDimIndex currencyValues denomValues
       timeValues acc entry =
     (case entry of (seriesKey, seriesData) \<Rightarrow>
        (let dimIndices = map toNumber (split_colon seriesKey);
             currencyIdx = arrayGet dimIndices currencyDimIndex;
             denomIdx = arrayGet dimIndices denomDimIndex
         in if currencyIdx = None \<or> denomIdx = None then acc
            else
              (let cur = idAt currencyValues (the currencyIdx);
                   base = idAt denomValues (the denomIdx)
               in if falsy cur \<or> falsy base then acc
                  else foldl (processObservation toNumber timeValues (the cur) (the base))
                         acc (observations seriesData))))"

text \<open>The body of the loop over the data sets (source lines 44--73).\<close>

definition processDataSet ::
  "(string \<Rightarrow> nat option) \<Rightarrow> nat \<Rightarrow> nat \<Rightarrow> SdmxValue list \<Rightarrow> SdmxValue list \<Rightarrow>
   SdmxValue list \<Rightarrow> 'n ExchangeRateObservation list \<Rightarrow> 'n SdmxDataSet \<Rightarrow>
   'n ExchangeRateObservation list" where
  "processDataSet toNumber currencyDimIndex denomDimIndex currencyValues denomValues
       timeValues acc dataSet =
     (case series dataSet of
        None \<Rightarrow> acc
      | Some entries \<Rightarrow>
          foldl (processSeries toNumber currencyDimIndex denomDimIndex currencyValues
                   denomValues timeValues) acc entries)"

text \<open>
  \<^verbatim>\<open>parseJsonResponse\<close> (source lines 16--76). The two lookup functions call
  \<^verbatim>\<open>dims.findIndex\<close>, which raises the runtime's \<open>TypeError\<close> when \<^verbatim>\<open>dims\<close> is
  \<^verbatim>\<open>undefined\<close>; the lookups above are stated on arrays, so that case is a
  branch here, at the place of the first call on each array: for the series
  array before the lookup of \<^verbatim>\<open>CURRENCY\<close>, for the observation array after the
  lookup of \<^verbatim>\<open>CURRENCY_DENOM\<close>.
\<close>

definition parseJsonResponse ::
  "(string \<Rightarrow> nat option) \<Rightarrow> 'n SdmxJsonResponse \<Rightarrow>
   error + 'n ExchangeRateObservation list" where
  "parseJsonResponse toNumber data =
     (case dataSets data of
        None \<Rightarrow> Inr []
      | Some dss \<Rightarrow>
          if length dss = 0 then Inr []
          else
            (case (case structureOf data of None \<Rightarrow> None | Some st \<Rightarrow> dimensions st) of
               None \<Rightarrow> Inl (EcbParseError ''SDMX-JSON response missing structure.dimensions.'')
             | Some dims \<Rightarrow>
                 (case seriesDimensions dims of
                    None \<Rightarrow> Inl TypeError
                  | Some seriesDims \<Rightarrow>
                 (case findDimensionIndex seriesDims ''CURRENCY'' of
                    Inl e \<Rightarrow> Inl e
                  | Inr currencyDimIndex \<Rightarrow>
                 (case findDimensionIndex seriesDims ''CURRENCY_DENOM'' of
                    Inl e \<Rightarrow> Inl e
                  | Inr denomDimIndex \<Rightarrow>
                 (case observationDimensions dims of
                    None \<Rightarrow> Inl TypeError
                  | Some obsDims \<Rightarrow>
                 (case findObservationDimensionIndex obsDims ''TIME_PERIOD'' of
                    Inl e \<Rightarrow> Inl e
                  | Inr timeDimIndex \<Rightarrow>
                 (let currencyValues = valuesAt seriesDims currencyDimIndex;
                      denomValues = valuesAt seriesDims denomDimIndex;
                      timeValues = valuesAt obsDims timeDimIndex
                  in if currencyValues = None \<or> denomValues = None \<or> timeValues = None
                     then Inl (EcbParseError ''SDMX-JSON response missing dimension values.'')
                     else Inr (foldl (processDataSet toNumber currencyDimIndex denomDimIndex
                                        (the currencyValues) (the denomValues)
                                        (the timeValues))
                                 [] dss)))))))))"

subsection \<open>Notions used to state the properties of the decoder\<close>

text \<open>
  \<open>isFirstPosition dims t i\<close>: \<open>i\<close> is the zero-based position of the first
  dimension of \<open>dims\<close> whose identifier is \<open>t\<close>.
\<close>

definition isFirstPosition :: "SdmxDimension list \<Rightarrow> string \<Rightarrow> nat \<Rightarrow> bool" where
  "isFirstPosition dims t i =
     (i < length dims \<and> dimId (dims ! i) = t \<and> (\<forall>j < i. dimId (dims ! j) \<noteq> t))"

text \<open>
  The structural invariants of a document: \<^verbatim>\<open>structure.dimensions\<close> is present
  with its two arrays, the series dimensions contain \<^verbatim>\<open>CURRENCY\<close> (first at \<open>cpos\<close>) and
  \<^verbatim>\<open>CURRENCY_DENOM\<close> (first at \<open>dpos\<close>), the observation dimensions contain
  \<^verbatim>\<open>TIME_PERIOD\<close> (first at \<open>tpos\<close>), and the three dimensions found there have
  their value vocabularies \<open>cv\<close>, \<open>dv\<close> and \<open>tv\<close>.
\<close>

definition structureResolves ::
  "SdmxStructure option \<Rightarrow> nat \<Rightarrow> nat \<Rightarrow> nat \<Rightarrow>
   SdmxValue list \<Rightarrow> SdmxValue list \<Rightarrow> SdmxValue list \<Rightarrow> bool" where
  "structureResolves st cpos dpos tpos cv dv tv =
     (case st of
        None \<Rightarrow> False
      | Some s \<Rightarrow>
          (case dimensions s of
             None \<Rightarrow> False
           | Some dims \<Rightarrow>
               (case seriesDimensions dims of
                  None \<Rightarrow> False
                | Some seriesDims \<Rightarrow>
                    (case observationDimensions dims of
                       None \<Rightarrow> False
                     | Some obsDims \<Rightarrow>
                         isFirstPosition seriesDims ''CURRENCY'' cpos
                         \<and> dimValues (seriesDims ! cpos) = Some cv
                         \<and> isFirstPosition seriesDims ''CURRENCY_DENOM'' dpos
                         \<and> dimValues (seriesDims ! dpos) = Some dv
                         \<and> isFirstPosition obsDims ''TIME_PERIOD'' tpos
                         \<and> dimValues (obsDims ! tpos) = Some tv))))"

text \<open>
  The segment of a series key at a position, read by \<open>toNumber\<close>: \<open>None\<close> when
  the key has no segment there.
\<close>

definition segmentAt :: "(string \<Rightarrow> nat option) \<Rightarrow> string \<Rightarrow> nat \<Rightarrow> nat option option" where
  "segmentAt toNumber seriesKey pos = arrayGet (map toNumber (split_colon seriesKey)) pos"

text \<open>
  The identifier a key segment selects in a vocabulary: none when there is no
  segment, when the index is outside the vocabulary, when the value there has no
  \<^verbatim>\<open>id\<close>, or when its \<^verbatim>\<open>id\<close> is the empty string.
\<close>

definition selectedId :: "SdmxValue list \<Rightarrow> nat option option \<Rightarrow> string option" where
  "selectedId vocabulary seg =
     (case seg of
        None \<Rightarrow> None
      | Some n \<Rightarrow>
          (case idAt vocabulary n of
             None \<Rightarrow> None
           | Some s \<Rightarrow> if s = [] then None else Some s))"

text \<open>The rate of an observation tuple: its first element, when there is one and it is not \<^verbatim>\<open>null\<close>.\<close>

definition rateOf :: "'n option list \<Rightarrow> 'n option" where
  "rateOf obsValues = (case obsValues of [] \<Rightarrow> None | r # _ \<Rightarrow> r)"

text \<open>
  All (series key, observation key, observation tuple) triples of a list of data
  sets, in document order.
\<close>

definition pairsOfSeries :: "string \<times> 'n SdmxSeries \<Rightarrow> (string \<times> string \<times> 'n option list) list" where
  "pairsOfSeries entry =
     (case entry of (seriesKey, seriesData) \<Rightarrow>
        map (\<lambda>obsEntry. (seriesKey, fst obsEntry, snd obsEntry)) (observations seriesData))"

definition pairsOfDataSet :: "'n SdmxDataSet \<Rightarrow> (string \<times> string \<times> 'n option list) list" where
  "pairsOfDataSet dataSet =
     (case series dataSet of None \<Rightarrow> [] | Some entries \<Rightarrow> concat (map pairsOfSeries entries))"

definition pairsOf :: "'n SdmxDataSet list \<Rightarrow> (string \<times> string \<times> 'n option list) list" where
  "pairsOf dss = concat (map pairsOfDataSet dss)"

text \<open>
  The observation that the specification assigns to one triple: its currency and
  base currency are the identifiers selected by the key's segments at the
  \<^verbatim>\<open>CURRENCY\<close> and \<^verbatim>\<open>CURRENCY_DENOM\<close> positions, its date the identifier selected by
  the observation key in the time vocabulary, its rate the tuple's rate; none
  when any of the four is missing.
\<close>

definition decodePair ::
  "(string \<Rightarrow> nat option) \<Rightarrow> nat \<Rightarrow> nat \<Rightarrow> SdmxValue list \<Rightarrow> SdmxValue list \<Rightarrow>
   SdmxValue list \<Rightarrow> string \<times> string \<times> 'n option list \<Rightarrow>
   'n ExchangeRateObservation option" where
  "decodePair toNumber cpos dpos cv dv tv triple =
     (case triple of (seriesKey, obsKey, obsValues) \<Rightarrow>
        (case selectedId cv (segmentAt toNumber seriesKey cpos) of
           None \<Rightarrow> None
         | Some c \<Rightarrow>
        (case selectedId dv (segmentAt toNumber seriesKey dpos) of
           None \<Rightarrow> None
         | Some b \<Rightarrow>
        (case selectedId tv (Some (toNumber obsKey)) of
           None \<Rightarrow> None
         | Some d \<Rightarrow>
        (case rateOf obsValues of
           None \<Rightarrow> None
         | Some r \<Rightarrow> Some \<lparr> date = d, currency = c, baseCurrency = b, rate = r \<rparr>)))))"

text \<open>
  A triple is decodable when its key segments select a currency and a base
  currency identifier, its observation key selects a date identifier, and its
  tuple has a rate.
\<close>

definition decodable ::
  "(string \<Rightarrow> nat option) \<Rightarrow> nat \<Rightarrow> nat \<Rightarrow> SdmxValue list \<Rightarrow> SdmxValue list \<Rightarrow>
   SdmxValue list \<Rightarrow> string \<times> string \<times> 'n option list \<Rightarrow> bool" where
  "decodable toNumber cpos dpos cv dv tv triple =
     (case triple of (seriesKey, obsKey, obsValues) \<Rightarrow>
        selectedId cv (segmentAt toNumber seriesKey cpos) \<noteq> None
        \<and> selectedId dv (segmentAt toNumber seriesKey dpos) \<noteq> None
        \<and> selectedId tv (Some (toNumber obsKey)) \<noteq> None
        \<and> rateOf obsValues \<noteq> None)"

subsection \<open>Test fixtures (\<^verbatim>\<open>src/__tests__/fixtures.ts\<close>)\<close>

text \<open>
  The two fixtures share their structure up to the currency vocabulary.
\<close>

definition fixtureSeriesDimensions :: "SdmxValue list \<Rightarrow> SdmxDimension list" where
  "fixtureSeriesDimensions currencyValues =
     [\<lparr> dimId = ''FREQ'', dimValues = Some [\<lparr> valueId = Some ''D'' \<rparr>] \<rparr>,
      \<lparr> dimId = ''CURRENCY'', dimValues = Some currencyValues \<rparr>,
      \<lparr> dimId = ''CURRENCY_DENOM'', dimValues = Some [\<lparr> valueId = Some ''EUR'' \<rparr>] \<rparr>,
      \<lparr> dimId = ''EXR_TYPE'', dimValues = Some [\<lparr> valueId = Some ''SP00'' \<rparr>] \<rparr>,
      \<lparr> dimId = ''EXR_SUFFIX'', dimValues = Some [\<lparr> valueId = Some ''A'' \<rparr>] \<rparr>]"

definition fixtureTimeValues :: "SdmxValue list" where
  "fixtureTimeValues = [\<lparr> valueId = Some ''2025-01-15'' \<rparr>, \<lparr> valueId = Some ''2025-01-16'' \<rparr>]"

definition fixtureStructure :: "SdmxValue list \<Rightarrow> SdmxStructure" where
  "fixtureStructure currencyValues =
     \<lparr> dimensions = Some
        \<lparr> seriesDimensions = Some (fixtureSeriesDimensions currencyValues),
          observationDimensions =
            Some [\<lparr> dimId = ''TIME_PERIOD'', dimValues = Some fixtureTimeValues \<rparr>] \<rparr> \<rparr>"

definition SINGLE_CURRENCY_RESPONSE :: "real SdmxJsonResponse" where
  "SINGLE_CURRENCY_RESPONSE =
     \<lparr> dataSets = Some
         [\<lparr> series = Some
              [(''0:0:0:0:0'',
                \<lparr> observations =
                    [(''0'', [Some 1.03, Some 0, Some 0, None, None]),
                     (''1'', [Some 1.0303, Some 0, Some 0, None, None])] \<rparr>)] \<rparr>],
       structureOf = Some (fixtureStructure [\<lparr> valueId = Some ''USD'' \<rparr>]) \<rparr>"

definition MULTI_CURRENCY_RESPONSE :: "real SdmxJsonResponse" where
  "MULTI_CURRENCY_RESPONSE =
     \<lparr> dataSets = Some
         [\<lparr> series = Some
              [(''0:0:0:0:0'',
                \<lparr> observations = [(''0'', [Some 1.03, Some 0]), (''1'', [Some 1.0303, Some 0])] \<rparr>),
               (''0:1:0:0:0'',
                \<lparr> observations = [(''0'', [Some 0.8442, Some 0]), (''1'', [Some 0.8451, Some 0])] \<rparr>)]
           \<rparr>],
       structureOf = Some (fixtureStructure [\<lparr> valueId = Some ''USD'' \<rparr>,
                                             \<lparr> valueId = Some ''GBP'' \<rparr>]) \<rparr>"

text \<open>
  Further documents over the fixtures' structure. In \<open>SHORT_KEY_RESPONSE\<close> the
  only series key has three segments where the structure has five series
  dimensions. \<open>MALFORMED_ENTRIES_RESPONSE\<close> collects malformed entries: a data set
  without series, a key with non-numeric and too few segments, a key with too
  many segments, a currency index outside the vocabulary, a currency value
  without \<^verbatim>\<open>id\<close>, observation keys that are out of range or not numeric, a
  \<^verbatim>\<open>null\<close> rate and an empty observation tuple.
\<close>

definition SHORT_KEY_RESPONSE :: "real SdmxJsonResponse" where
  "SHORT_KEY_RESPONSE =
     \<lparr> dataSets = Some
         [\<lparr> series = Some
              [(''0:0:0'',
                \<lparr> observations = [(''0'', [Some 1.03]), (''1'', [Some 1.0303])] \<rparr>)] \<rparr>],
       structureOf = Some (fixtureStructure [\<lparr> valueId = Some ''USD'' \<rparr>]) \<rparr>"

definition malformedSeries :: "(string \<times> real SdmxSeries) list" where
  "malformedSeries =
     [(''USD:EUR'', \<lparr> observations = [(''0'', [Some 1])] \<rparr>),
      (''0:0:0:0:0:0:0'', \<lparr> observations = [(''1'', [Some 2])] \<rparr>),
      (''0:9:0:0:0'', \<lparr> observations = [(''0'', [Some 3])] \<rparr>),
      (''0:1:0:0:0'', \<lparr> observations = [(''0'', [Some 6])] \<rparr>),
      (''0:0:0:0:0'',
       \<lparr> observations =
           [(''0'', [Some 1.03]), (''1'', [None]), (''9'', [Some 5]), (''x'', [Some 4])] \<rparr>),
      (''0:0:0:0:1'', \<lparr> observations = [(''0'', [])] \<rparr>)]"

definition MALFORMED_ENTRIES_RESPONSE :: "real SdmxJsonResponse" where
  "MALFORMED_ENTRIES_RESPONSE =
     \<lparr> dataSets = Some [\<lparr> series = None \<rparr>, \<lparr> series = Some malformedSeries \<rparr>],
       structureOf = Some (fixtureStructure [\<lparr> valueId = Some ''USD'' \<rparr>,
                                             \<lparr> valueId = None \<rparr>]) \<rparr>"

subsection \<open>\<^verbatim>\<open>parseSdmxJson\<close> (\<^verbatim>\<open>src/parsers/sdmx-json-parser.ts\<close>, lines 81--87)\<close>

text \<open>
  \<open>jsonParse\<close> is the runtime's \<^verbatim>\<open>JSON.parse\<close> followed by the cast to
  \<^verbatim>\<open>SdmxJsonResponse\<close>: \<open>None\<close> when it throws (the text is not valid JSON), the
  parsed value otherwise. The \<^verbatim>\<open>cause\<close> attached to the error is not modelled.
\<close>

definition parseSdmxJson :: "(string \<Rightarrow> 'j option) \<Rightarrow> string \<Rightarrow> error + 'j" where
  "parseSdmxJson jsonParse raw =
     (case jsonParse raw of
        None \<Rightarrow> Inl (EcbParseError ''Failed to parse ECB JSON response.'')
      | Some parsed \<Rightarrow> Inr parsed)"

subsection \<open>Query validation (\<^verbatim>\<open>src/utils/validation.ts\<close>)\<close>

text \<open>
  The fields of \<^verbatim>\<open>ExchangeRateQuery\<close>; \<open>queryBaseCurrency\<close> is its optional
  \<^verbatim>\<open>baseCurrency\<close>.
\<close>

datatype Frequency = D | M | A

record ExchangeRateQuery =
  currencies :: "string list"
  startDate :: string
  endDate :: "string option"
  frequency :: "Frequency option"
  queryBaseCurrency :: "string option"

definition isUpperAZ :: "char \<Rightarrow> bool" where
  "isUpperAZ c = (let n = (of_char c :: nat) in 65 \<le> n \<and> n \<le> 90)"

definition isDigit09 :: "char \<Rightarrow> bool" where
  "isDigit09 c = (let n = (of_char c :: nat) in 48 \<le> n \<and> n \<le> 57)"

text \<open>\<^verbatim>\<open>/^[A-Z]{3}$/.test(s)\<close>\<close>

definition CURRENCY_REGEX_test :: "string \<Rightarrow> bool" where
  "CURRENCY_REGEX_test s = (length s = 3 \<and> list_all isUpperAZ s)"

text \<open>\<^verbatim>\<open>/^\d{4}-\d{2}-\d{2}$/.test(s)\<close>\<close>

definition ISO_DATE_REGEX_test :: "string \<Rightarrow> bool" where
  "ISO_DATE_REGEX_test s =
     (length s = 10
      \<and> list_all isDigit09 (take 4 s) \<and> s ! 4 = CHR ''-''
      \<and> list_all isDigit09 (take 2 (drop 5 s)) \<and> s ! 7 = CHR ''-''
      \<and> list_all isDigit09 (drop 8 s))"

text \<open>\<^verbatim>\<open>a < b\<close> on strings: lexicographic on the character codes.\<close>

fun jsStringLess :: "string \<Rightarrow> string \<Rightarrow> bool" where
  "jsStringLess [] [] = False"
| "jsStringLess [] (y # ys) = True"
| "jsStringLess (x # xs) [] = False"
| "jsStringLess (x # xs) (y # ys) =
     (if (of_char x :: nat) < of_char y then True
      else if (of_char y :: nat) < of_char x then False
      else jsStringLess xs ys)"

text \<open>The loop over \<^verbatim>\<open>query.currencies\<close>: the first invalid code raises.\<close>

fun validateCurrencies :: "string list \<Rightarrow> error + unit" where
  "validateCurrencies [] = Inr ()"
| "validateCurrencies (c # cs) =
     (if \<not> CURRENCY_REGEX_test c
      then Inl (EcbValidationError
             (''Invalid currency code '' @ quoted c @ ''. Must be a 3-letter ISO 4217 code.''))
      else validateCurrencies cs)"

definition validateQuery :: "ExchangeRateQuery \<Rightarrow> error + unit" where
  "validateQuery query =
     (if length (currencies query) = 0
      then Inl (EcbValidationError ''At least one currency must be specified.'')
      else
        (case validateCurrencies (currencies query) of
           Inl e \<Rightarrow> Inl e
         | Inr _ \<Rightarrow>
             if \<not> ISO_DATE_REGEX_test (startDate query)
             then Inl (EcbValidationError
                    (''Invalid startDate '' @ quoted (startDate query) @
                     ''. Expected format: YYYY-MM-DD.''))
             else if endDate query \<noteq> None \<and> \<not> ISO_DATE_REGEX_test (the (endDate query))
             then Inl (EcbValidationError
                    (''Invalid endDate '' @ quoted (the (endDate query)) @
                     ''. Expected format: YYYY-MM-DD.''))
             else if endDate query \<noteq> None \<and> jsStringLess (the (endDate query)) (startDate query)
             then Inl (EcbValidationError
                    (''startDate '' @ quoted (startDate query) @ '' must not be after endDate '' @
                     quoted (the (endDate query)) @ ''.''))
             else if queryBaseCurrency query \<noteq> None
                     \<and> \<not> CURRENCY_REGEX_test (the (queryBaseCurrency query))
             then Inl (EcbValidationError
                    (''Invalid baseCurrency '' @ quoted (the (queryBaseCurrency query)) @
                     ''. Must be a 3-letter ISO 4217 code.''))
             else Inr ()))"

subsection \<open>The client facade (\<^verbatim>\<open>src/client.ts\<close>)\<close>

text \<open>
  Result shapes. \<open>targetCurrency\<close> is \<^verbatim>\<open>ExchangeRateResult.currency\<close> (read from
  \<^verbatim>\<open>currencies[0]\<close>, hence optional in the model); \<open>multiBase\<close>, \<open>multiCurrencies\<close>
  and \<open>multiRates\<close> are the \<^verbatim>\<open>base\<close>, \<^verbatim>\<open>currencies\<close> and \<^verbatim>\<open>rates\<close> of
  \<^verbatim>\<open>ExchangeRatesResult\<close>; \<open>conversionRate\<close>, \<open>conversionDate\<close> and
  \<open>conversionCurrency\<close> are the \<^verbatim>\<open>rate\<close>, \<^verbatim>\<open>date\<close> and \<^verbatim>\<open>currency\<close> of
  \<^verbatim>\<open>ConversionResult\<close>.
\<close>

record 'n ExchangeRateResult =
  base :: string
  targetCurrency :: "string option"
  rates :: "(string \<times> 'n) list"

record 'n ExchangeRatesResult =
  multiBase :: string
  multiCurrencies :: "string list"
  multiRates :: "(string \<times> (string \<times> 'n) list) list"

record 'n ConversionResult =
  amount :: 'n
  conversionRate :: 'n
  conversionDate :: string
  conversionCurrency :: string

text \<open>
  The client. \<open>clientBaseCurrency\<close> is the private field \<^verbatim>\<open>baseCurrency\<close>.
  \<open>transport\<close> stands for \<^verbatim>\<open>this.fetcher.get(buildExchangeRateUrl(query, this.baseUrl))\<close>:
  the construction of the URL by the runtime's \<^verbatim>\<open>URL\<close> class and the HTTP round
  trip, returning the response text or raising. The configuration is reduced to
  the one field that the modelled operations read.
\<close>

record EcbClientConfig =
  configBaseCurrency :: "string option"

record EcbClient =
  clientBaseCurrency :: string
  transport :: "ExchangeRateQuery \<Rightarrow> error + string"

definition DEFAULT_BASE_CURRENCY :: string where
  "DEFAULT_BASE_CURRENCY = ''EUR''"

definition newEcbClient ::
  "EcbClientConfig \<Rightarrow> (ExchangeRateQuery \<Rightarrow> error + string) \<Rightarrow> EcbClient" where
  "newEcbClient config fetch =
     \<lparr> clientBaseCurrency =
         (case configBaseCurrency config of None \<Rightarrow> DEFAULT_BASE_CURRENCY | Some b \<Rightarrow> b),
       transport = fetch \<rparr>"

text \<open>
  \<^verbatim>\<open>Map.prototype.set\<close> and \<^verbatim>\<open>Map.prototype.get\<close> on the list of entries in
  insertion order: setting a key that is present replaces its value in place.
\<close>

fun mapSet :: "('k \<times> 'v) list \<Rightarrow> 'k \<Rightarrow> 'v \<Rightarrow> ('k \<times> 'v) list" where
  "mapSet [] k v = [(k, v)]"
| "mapSet ((k', v') # m) k v = (if k' = k then (k', v) # m else (k', v') # mapSet m k v)"

fun mapGet :: "('k \<times> 'v) list \<Rightarrow> 'k \<Rightarrow> 'v option" where
  "mapGet [] k = None"
| "mapGet ((k', v') # m) k = (if k' = k then Some v' else mapGet m k)"

text \<open>
  The per-date \<^verbatim>\<open>Record<string, number>\<close> of the multi-currency result is an
  ordinary object, modelled by its own properties in the order in which the
  runtime enumerates them: first the keys that are array indices (the canonical
  decimal spelling of an integer below \<open>2\<^sup>3\<^sup>2 - 1\<close>) in ascending numeric order,
  then the other keys in the order of their creation. \<open>recordSet\<close> is the
  assignment \<^verbatim>\<open>record[key] = value\<close> of a number: a key that is present keeps its
  place, and the key \<^verbatim>\<open>__proto__\<close> reaches the inherited setter, which ignores a
  number, so that no property is created.
\<close>

definition arrayIndex :: "string \<Rightarrow> nat option" where
  "arrayIndex key =
     (if key = [] \<or> (hd key = CHR ''0'' \<and> key \<noteq> ''0'') then None
      else (case decimalFrom 0 key of
              None \<Rightarrow> None
            | Some n \<Rightarrow> if n < 4294967295 then Some n else None))"

definition enumeratedBefore :: "string \<Rightarrow> string \<Rightarrow> bool" where
  "enumeratedBefore new old =
     (case arrayIndex new of
        None \<Rightarrow> False
      | Some i \<Rightarrow> (case arrayIndex old of None \<Rightarrow> True | Some j \<Rightarrow> i < j))"

fun recordInsert :: "(string \<times> 'v) list \<Rightarrow> string \<Rightarrow> 'v \<Rightarrow> (string \<times> 'v) list" where
  "recordInsert [] key v = [(key, v)]"
| "recordInsert ((key', v') # r) key v =
     (if enumeratedBefore key key' then (key, v) # (key', v') # r
      else (key', v') # recordInsert r key v)"

definition recordSet :: "(string \<times> 'v) list \<Rightarrow> string \<Rightarrow> 'v \<Rightarrow> (string \<times> 'v) list" where
  "recordSet r key v =
     (if key = ''__proto__'' then r
      else if mapGet r key \<noteq> None then mapSet r key v
      else recordInsert r key v)"

definition resolveQuery :: "EcbClient \<Rightarrow> ExchangeRateQuery \<Rightarrow> ExchangeRateQuery" where
  "resolveQuery client query =
     (if queryBaseCurrency query \<noteq> None then query
      else query\<lparr>queryBaseCurrency := Some (clientBaseCurrency client)\<rparr>)"

definition fetchAndParse ::
  "(string \<Rightarrow> nat option) \<Rightarrow> (string \<Rightarrow> 'n SdmxJsonResponse option) \<Rightarrow> EcbClient \<Rightarrow>
   ExchangeRateQuery \<Rightarrow> error + 'n ExchangeRateObservation list" where
  "fetchAndParse toNumber jsonParse client query =
     (case transport client query of
        Inl e \<Rightarrow> Inl e
      | Inr raw \<Rightarrow>
     (case parseSdmxJson jsonParse raw of
        Inl e \<Rightarrow> Inl e
      | Inr json \<Rightarrow>
     (case parseJsonResponse toNumber json of
        Inl e \<Rightarrow> Inl e
      | Inr obs \<Rightarrow>
          if length obs = 0
          then Inl (EcbNoDataError (currencies query) (startDate query) (endDate query))
          else Inr obs)))"

text \<open>\<^verbatim>\<open>observations[0]?.baseCurrency ?? query.baseCurrency ?? this.baseCurrency\<close>\<close>

definition deriveBase ::
  "EcbClient \<Rightarrow> 'n ExchangeRateObservation list \<Rightarrow> ExchangeRateQuery \<Rightarrow> string" where
  "deriveBase client obs query =
     (case arrayGet obs 0 of
        Some first \<Rightarrow> baseCurrency first
      | None \<Rightarrow>
          (case queryBaseCurrency query of
             Some b \<Rightarrow> b
           | None \<Rightarrow> clientBaseCurrency client))"

definition getSingleCurrencyRates ::
  "(string \<Rightarrow> nat option) \<Rightarrow> (string \<Rightarrow> 'n SdmxJsonResponse option) \<Rightarrow> EcbClient \<Rightarrow>
   ExchangeRateQuery \<Rightarrow> error + 'n ExchangeRateResult" where
  "getSingleCurrencyRates toNumber jsonParse client query =
     (let resolved = resolveQuery client query in
      case validateQuery resolved of
        Inl e \<Rightarrow> Inl e
      | Inr _ \<Rightarrow>
     (case fetchAndParse toNumber jsonParse client resolved of
        Inl e \<Rightarrow> Inl e
      | Inr obs \<Rightarrow>
          Inr \<lparr> base = deriveBase client obs resolved,
                targetCurrency = arrayGet (currencies resolved) 0,
                rates = foldl (\<lambda>m ob. mapSet m (date ob) (rate ob)) [] obs \<rparr>))"

definition getRate ::
  "(string \<Rightarrow> nat option) \<Rightarrow> (string \<Rightarrow> 'n SdmxJsonResponse option) \<Rightarrow> EcbClient \<Rightarrow>
   string \<Rightarrow> string \<Rightarrow> error + 'n ExchangeRateResult" where
  "getRate toNumber jsonParse client cur day =
     getSingleCurrencyRates toNumber jsonParse client
       \<lparr> currencies = [cur], startDate = day, endDate = Some day, frequency = None,
         queryBaseCurrency = None \<rparr>"

definition transformToMultiCurrencyResult ::
  "EcbClient \<Rightarrow> 'n ExchangeRateObservation list \<Rightarrow> ExchangeRateQuery \<Rightarrow>
   'n ExchangeRatesResult" where
  "transformToMultiCurrencyResult client obs query =
     \<lparr> multiBase = deriveBase client obs query,
       multiCurrencies = currencies query,
       multiRates =
         foldl (\<lambda>m ob.
                  (case mapGet m (date ob) of
                     None \<Rightarrow> mapSet m (date ob) (recordSet [] (currency ob) (rate ob))
                   | Some dateRates \<Rightarrow>
                       mapSet m (date ob) (recordSet dateRates (currency ob) (rate ob))))
           [] obs \<rparr>"

definition getRates ::
  "(string \<Rightarrow> nat option) \<Rightarrow> (string \<Rightarrow> 'n SdmxJsonResponse option) \<Rightarrow> EcbClient \<Rightarrow>
   ExchangeRateQuery \<Rightarrow> error + 'n ExchangeRatesResult" where
  "getRates toNumber jsonParse client query =
     (let resolved = resolveQuery client query in
      case validateQuery resolved of
        Inl e \<Rightarrow> Inl e
      | Inr _ \<Rightarrow>
     (case fetchAndParse toNumber jsonParse client resolved of
        Inl e \<Rightarrow> Inl e
      | Inr obs \<Rightarrow> Inr (transformToMultiCurrencyResult client obs resolved)))"

text \<open>
  The arithmetic of \<^verbatim>\<open>convert\<close> is that of the runtime's \<^verbatim>\<open>number\<close>, IEEE-754
  binary64. A finite double is modelled by the real number it denotes (the sign
  of zero, the infinities and \<^verbatim>\<open>NaN\<close> have no counterpart, so the operations
  below are those of the runtime where the arguments are finite, the divisor is
  not zero and the exact result is below \<open>2\<^sup>1\<^sup>0\<^sup>2\<^sup>3\<close> in magnitude, which excludes
  overflow). The doubles are the reals \<open>k * 2\<^sup>e\<close> with \<open>\<bar>k\<bar> < 2\<^sup>5\<^sup>3\<close> and
  \<open>-1074 \<le> e \<le> 971\<close>.

  \<open>ulpExponent x\<close> is the exponent \<open>e\<close> of the spacing of the doubles around \<open>x\<close>:
  the least \<open>e\<close> from \<open>-1074\<close> on with \<open>\<bar>x\<bar> < 2\<^sup>e\<^sup>+\<^sup>5\<^sup>3\<close>. \<open>roundToDouble\<close> is
  rounding to nearest, ties to even, which the runtime applies to the exact
  result of every arithmetic operation and to every number literal.
  \<^verbatim>\<open>Math.round\<close> is exact: the nearest integer, a half going up.
\<close>

definition roundHalfEven :: "real \<Rightarrow> int" where
  "roundHalfEven x =
     (let n = \<lfloor>x\<rfloor>; d = x - of_int n in
      if d < 1 / 2 then n else if 1 / 2 < d then n + 1 else if even n then n else n + 1)"

fun ulpSearch :: "nat \<Rightarrow> int \<Rightarrow> real \<Rightarrow> int" where
  "ulpSearch 0 e x = e"
| "ulpSearch (Suc fuel) e x =
     (if \<bar>x\<bar> < 2 powi (e + 53) then e else ulpSearch fuel (e + 1) x)"

definition ulpExponent :: "real \<Rightarrow> int" where
  "ulpExponent x = ulpSearch 2045 (- 1074) x"

definition roundToDouble :: "real \<Rightarrow> real" where
  "roundToDouble x =
     (let e = ulpExponent x in of_int (roundHalfEven (x / 2 powi e)) * 2 powi e)"

definition jsMultiply :: "real \<Rightarrow> real \<Rightarrow> real" where
  "jsMultiply a b = roundToDouble (a * b)"

definition jsDivide :: "real \<Rightarrow> real \<Rightarrow> real" where
  "jsDivide a b = roundToDouble (a / b)"

definition Math_round :: "real \<Rightarrow> real" where
  "Math_round x = of_int \<lfloor>x + 1 / 2\<rfloor>"

text \<open>
  \<^verbatim>\<open>convert\<close>. The amount is \<^verbatim>\<open>Math.round(amount * rate * 100) / 100\<close>, the
  products taken from the left. \<open>Inr None\<close> is the returned \<^verbatim>\<open>null\<close>.
  Destructuring the first entry of an empty map would raise \<open>TypeError\<close>.
\<close>

definition convert ::
  "(string \<Rightarrow> nat option) \<Rightarrow> (string \<Rightarrow> real SdmxJsonResponse option) \<Rightarrow>
   EcbClient \<Rightarrow> real \<Rightarrow> string \<Rightarrow> string \<Rightarrow> error + real ConversionResult option" where
  "convert toNumber jsonParse client amt cur day =
     (case getRate toNumber jsonParse client cur day of
        Inl e \<Rightarrow>
          (case e of
             EcbNoDataError _ _ _ \<Rightarrow> Inr None
           | _ \<Rightarrow> Inl e)
      | Inr result \<Rightarrow>
          (case rates result of
             [] \<Rightarrow> Inl TypeError
           | (actualDate, r) # _ \<Rightarrow>
               Inr (Some \<lparr> amount =
                             jsDivide (Math_round (jsMultiply (jsMultiply amt r) 100)) 100,
                           conversionRate = r,
                           conversionDate = actualDate,
                           conversionCurrency = cur \<rparr>)))"

text \<open>A transport that answers every query with a fixed text, as the tests' \<^verbatim>\<open>MockFetcher\<close> does.\<close>

definition mockTransport :: "string \<Rightarrow> ExchangeRateQuery \<Rightarrow> error + string" where
  "mockTransport response query = Inr response"

text \<open>
  \<^verbatim>\<open>JSON.parse\<close> on the serialisations of three fixtures, which are named here
  rather than spelled out: the text called \<^verbatim>\<open>single\<close> parses to
  \<open>SINGLE_CURRENCY_RESPONSE\<close>, the text called \<^verbatim>\<open>multi\<close> to
  \<open>MULTI_CURRENCY_RESPONSE\<close>, the text called \<^verbatim>\<open>empty\<close> to the single-currency
  document with \<^verbatim>\<open>dataSets: []\<close> (the tests' \<^verbatim>\<open>emptyResponse\<close>).
\<close>

definition jsonParseFixtures :: "string \<Rightarrow> real SdmxJsonResponse option" where
  "jsonParseFixtures raw =
     (if raw = ''single'' then Some SINGLE_CURRENCY_RESPONSE
      else if raw = ''multi'' then Some MULTI_CURRENCY_RESPONSE
      else if raw = ''empty'' then Some (SINGLE_CURRENCY_RESPONSE \<lparr> dataSets := Some [] \<rparr>)
      else None)"

text \<open>
  The fixtures above carry the decimal values of their number literals.
  \<^verbatim>\<open>JSON.parse\<close> reads each literal as the double nearest to it; \<open>parsedNumbers\<close>
  does so for every element of every observation tuple, and \<open>jsonParseDoubles\<close>
  is \<open>jsonParseFixtures\<close> with the numbers as the runtime holds them.
\<close>

definition parsedNumbers :: "real SdmxJsonResponse \<Rightarrow> real SdmxJsonResponse" where
  "parsedNumbers data =
     data \<lparr> dataSets :=
              map_option
                (map (\<lambda>ds.
                   ds \<lparr> series :=
                          map_option
                            (map (\<lambda>(seriesKey, seriesData).
                               (seriesKey,
                                seriesData
                                  \<lparr> observations :=
                                      map (\<lambda>(obsKey, obsValues).
                                             (obsKey, map (map_option roundToDouble) obsValues))
                                        (observations seriesData) \<rparr>)))
                            (series ds) \<rparr>))
                (dataSets data) \<rparr>"

definition jsonParseDoubles :: "string \<Rightarrow> real SdmxJsonResponse option" where
  "jsonParseDoubles raw = map_option parsedNumbers (jsonParseFixtures raw)"

text \<open>
  The single-currency fixture with other structures: \<open>badResponse\<close> is the document
  of the decoder's test for a missing \<^verbatim>\<open>CURRENCY\<close> dimension
  (\<^verbatim>\<open>structure: { dimensions: { series: [], observation: [] } }\<close>); the others have
  \<^verbatim>\<open>dimensions\<close> present but without its arrays (\<^verbatim>\<open>structure: { dimensions: {} }\<close>),
  and \<^verbatim>\<open>dimensions\<close> with the fixture's series array but without the observation
  array.
\<close>

definition badResponse :: "real SdmxJsonResponse" where
  "badResponse =
     SINGLE_CURRENCY_RESPONSE
       \<lparr> structureOf :=
           Some \<lparr> dimensions =
                    Some \<lparr> seriesDimensions = Some [], observationDimensions = Some [] \<rparr> \<rparr> \<rparr>"

definition MISSING_ARRAYS_RESPONSE :: "real SdmxJsonResponse" where
  "MISSING_ARRAYS_RESPONSE =
     SINGLE_CURRENCY_RESPONSE
       \<lparr> structureOf :=
           Some \<lparr> dimensions =
                    Some \<lparr> seriesDimensions = None, observationDimensions = None \<rparr> \<rparr> \<rparr>"

definition MISSING_OBSERVATION_ARRAY_RESPONSE :: "real SdmxJsonResponse" where
  "MISSING_OBSERVATION_ARRAY_RESPONSE =
     SINGLE_CURRENCY_RESPONSE
       \<lparr> structureOf :=
           Some \<lparr> dimensions =
                    Some \<lparr> seriesDimensions =
                             Some (fixtureSeriesDimensions [\<lparr> valueId = Some ''USD'' \<rparr>]),
                           observationDimensions = None \<rparr> \<rparr> \<rparr>"

section \<open>The dimension lookups\<close>

lemma findIndexFrom_none:
  "0 \<le> k \<Longrightarrow> (findIndexFrom p xs k = - 1) = (\<forall>x \<in> set xs. \<not> p x)"
  by (induction xs arbitrary: k) auto

lemma findIndexFrom_range:
  "0 \<le> k \<Longrightarrow> findIndexFrom p xs k \<noteq> - 1 \<Longrightarrow>
     k \<le> findIndexFrom p xs k \<and> findIndexFrom p xs k < k + int (length xs)"
proof (induction xs arbitrary: k)
  case Nil
  then show ?case by simp
next
  case (Cons x xs)
  show ?case
  proof (cases "p x")
    case True
    then show ?thesis by simp
  next
    case False
    with Cons.prems have "findIndexFrom p xs (k + 1) \<noteq> - 1" by simp
    with Cons.IH [of "k + 1"] Cons.prems False show ?thesis by simp
  qed
qed

lemma findIndexFrom_first:
  "0 \<le> k \<Longrightarrow> findIndexFrom p xs k \<noteq> - 1 \<Longrightarrow>
     p (xs ! nat (findIndexFrom p xs k - k)) \<and>
     (\<forall>j < nat (findIndexFrom p xs k - k). \<not> p (xs ! j))"
proof (induction xs arbitrary: k)
  case Nil
  then show ?case by simp
next
  case (Cons x xs)
  show ?case
  proof (cases "p x")
    case True
    then show ?thesis by simp
  next
    case False
    with Cons.prems have ne: "findIndexFrom p xs (k + 1) \<noteq> - 1" by simp
    from Cons.prems have k1: "0 \<le> k + 1" by simp
    let ?r = "findIndexFrom p xs (k + 1)"
    from findIndexFrom_range [OF k1 ne] have rge: "k + 1 \<le> ?r" by simp
    then have nat_eq: "nat (?r - k) = Suc (nat (?r - (k + 1)))" by simp
    from Cons.IH [OF k1 ne]
    have ih: "p (xs ! nat (?r - (k + 1)))" "\<forall>j < nat (?r - (k + 1)). \<not> p (xs ! j)"
      by simp_all
    have "\<forall>j < Suc (nat (?r - (k + 1))). \<not> p ((x # xs) ! j)"
    proof (intro allI impI)
      fix j assume "j < Suc (nat (?r - (k + 1)))"
      then show "\<not> p ((x # xs) ! j)" using False ih(2) by (cases j) auto
    qed
    with ih(1) False nat_eq show ?thesis by simp
  qed
qed

lemma findIndex_characterisation:
  "(findIndex p xs = int i) =
     (i < length xs \<and> p (xs ! i) \<and> (\<forall>j < i. \<not> p (xs ! j)))"
proof
  assume eq: "findIndex p xs = int i"
  then have ne: "findIndexFrom p xs 0 \<noteq> - 1" by (simp add: findIndex_def)
  from findIndexFrom_range [OF _ ne] findIndexFrom_first [OF _ ne] eq
  show "i < length xs \<and> p (xs ! i) \<and> (\<forall>j < i. \<not> p (xs ! j))"
    by (simp add: findIndex_def)
next
  assume r: "i < length xs \<and> p (xs ! i) \<and> (\<forall>j < i. \<not> p (xs ! j))"
  then have "\<exists>x \<in> set xs. p x" by (metis nth_mem)
  then have ne: "findIndexFrom p xs 0 \<noteq> - 1" using findIndexFrom_none [of 0 p xs] by simp
  let ?m = "nat (findIndexFrom p xs 0)"
  from findIndexFrom_range [OF _ ne] have range: "0 \<le> findIndexFrom p xs 0" "?m < length xs"
    by auto
  from findIndexFrom_first [OF _ ne] have first: "p (xs ! ?m)" "\<forall>j < ?m. \<not> p (xs ! j)"
    by simp_all
  have "?m = i"
  proof (rule ccontr)
    assume "?m \<noteq> i"
    then consider "?m < i" | "i < ?m" by linarith
    then show False using r first by cases auto
  qed
  with range(1) show "findIndex p xs = int i" by (simp add: findIndex_def)
qed

lemma findIndex_none: "(findIndex p xs = - 1) = (\<forall>x \<in> set xs. \<not> p x)"
  by (simp add: findIndex_def findIndexFrom_none)

lemma findIndex_nonneg: "findIndex p xs \<noteq> - 1 \<Longrightarrow> 0 \<le> findIndex p xs"
  using findIndexFrom_range [of 0 p xs] by (simp add: findIndex_def)

lemma findDimensionIndex_Inr:
  "(findDimensionIndex dims t = Inr i) =
     (i < length dims \<and> dimId (dims ! i) = t \<and> (\<forall>j < i. dimId (dims ! j) \<noteq> t))"
proof (cases "findIndex (\<lambda>d. dimId d = t) dims = - 1")
  case True
  then have "\<forall>d \<in> set dims. dimId d \<noteq> t" by (simp add: findIndex_none)
  then have "\<not> (i < length dims \<and> dimId (dims ! i) = t)" by auto
  with True show ?thesis by (auto simp: findDimensionIndex_def)
next
  case False
  from findIndex_nonneg [OF False]
  have "(nat (findIndex (\<lambda>d. dimId d = t) dims) = i) =
        (findIndex (\<lambda>d. dimId d = t) dims = int i)" by auto
  with False findIndex_characterisation [of "\<lambda>d. dimId d = t" dims i] show ?thesis
    by (simp add: findDimensionIndex_def)
qed

lemma findObservationDimensionIndex_Inr:
  "(findObservationDimensionIndex dims t = Inr i) =
     (i < length dims \<and> dimId (dims ! i) = t \<and> (\<forall>j < i. dimId (dims ! j) \<noteq> t))"
proof (cases "findIndex (\<lambda>d. dimId d = t) dims = - 1")
  case True
  then have "\<forall>d \<in> set dims. dimId d \<noteq> t" by (simp add: findIndex_none)
  then have "\<not> (i < length dims \<and> dimId (dims ! i) = t)" by auto
  with True show ?thesis by (auto simp: findObservationDimensionIndex_def)
next
  case False
  from findIndex_nonneg [OF False]
  have "(nat (findIndex (\<lambda>d. dimId d = t) dims) = i) =
        (findIndex (\<lambda>d. dimId d = t) dims = int i)" by auto
  with False findIndex_characterisation [of "\<lambda>d. dimId d = t" dims i] show ?thesis
    by (simp add: findObservationDimensionIndex_def)
qed

lemma findDimensionIndex_Inl:
  "(findDimensionIndex dims t = Inl e) =
     ((\<forall>d \<in> set dims. dimId d \<noteq> t) \<and>
      e = EcbParseError (''Missing series dimension '' @ quoted t @ '' in SDMX-JSON structure.''))"
  by (auto simp: findDimensionIndex_def findIndex_none)

lemma findObservationDimensionIndex_Inl:
  "(findObservationDimensionIndex dims t = Inl e) =
     ((\<forall>d \<in> set dims. dimId d \<noteq> t) \<and>
      e = EcbParseError
            (''Missing observation dimension '' @ quoted t @ '' in SDMX-JSON structure.''))"
  by (auto simp: findObservationDimensionIndex_def findIndex_none)



section \<open>The decoder\<close>

subsection \<open>The loops as concatenations of contributions\<close>

lemma arrayGet_eq_nth: "i < length xs \<Longrightarrow> arrayGet xs i = Some (xs ! i)"
  by (induction xs i rule: arrayGet.induct) auto

lemma arrayGet_None: "(arrayGet xs i = None) = (length xs \<le> i)"
  by (induction xs i rule: arrayGet.induct) auto

lemma split_colon_nonempty: "split_colon s \<noteq> []"
  by (induction s) (auto split: list.splits)

lemma foldl_contributions:
  assumes step: "\<And>acc x. g acc x = acc @ g [] x"
  shows "foldl g acc xs = acc @ concat (map (g []) xs)"
proof (induction xs arbitrary: acc)
  case Nil
  show ?case by simp
next
  case (Cons x xs)
  have "foldl g acc (x # xs) = foldl g (g acc x) xs" by simp
  also have "\<dots> = g acc x @ concat (map (g []) xs)" by (rule Cons.IH)
  also have "g acc x = acc @ g [] x" by (rule step)
  finally show ?case by simp
qed

lemma processObservation_acc:
  "processObservation f tv c b acc e = acc @ processObservation f tv c b [] e"
  by (simp add: processObservation_def Let_def split: prod.splits)

lemma observations_loop:
  "foldl (processObservation f tv c b) acc xs =
     acc @ concat (map (processObservation f tv c b []) xs)"
  by (rule foldl_contributions) (rule processObservation_acc)

lemma processSeries_acc:
  "processSeries f cp dp cv dv tv acc e = acc @ processSeries f cp dp cv dv tv [] e"
  by (cases e) (auto simp: processSeries_def Let_def observations_loop)

lemma series_loop:
  "foldl (processSeries f cp dp cv dv tv) acc xs =
     acc @ concat (map (processSeries f cp dp cv dv tv []) xs)"
  by (rule foldl_contributions) (rule processSeries_acc)

lemma processDataSet_acc:
  "processDataSet f cp dp cv dv tv acc ds = acc @ processDataSet f cp dp cv dv tv [] ds"
  by (simp add: processDataSet_def series_loop split: option.splits)

lemma dataSets_loop:
  "foldl (processDataSet f cp dp cv dv tv) acc xs =
     acc @ concat (map (processDataSet f cp dp cv dv tv []) xs)"
  by (rule foldl_contributions) (rule processDataSet_acc)

lemma isFirstPosition_findDimensionIndex:
  "isFirstPosition dims t i = (findDimensionIndex dims t = Inr i)"
  by (simp add: isFirstPosition_def findDimensionIndex_Inr)

lemma isFirstPosition_findObservationDimensionIndex:
  "isFirstPosition dims t i = (findObservationDimensionIndex dims t = Inr i)"
  by (simp add: isFirstPosition_def findObservationDimensionIndex_Inr)

lemma valuesAt_nth: "i < length dims \<Longrightarrow> valuesAt dims i = dimValues (dims ! i)"
  by (simp add: valuesAt_def arrayGet_eq_nth)

lemma isFirstPosition_less: "isFirstPosition dims t i \<Longrightarrow> i < length dims"
  by (simp add: isFirstPosition_def)

lemma parseJsonResponse_resolved:
  assumes "dataSets data = Some dss" and "dss \<noteq> []"
    and "structureResolves (structureOf data) cp dp tp cv dv tv"
  shows "parseJsonResponse f data =
           Inr (concat (map (processDataSet f cp dp cv dv tv []) dss))"
proof -
  from assms(3) obtain st dims sd od where st: "structureOf data = Some st"
    and dims: "dimensions st = Some dims"
    and arrays: "seriesDimensions dims = Some sd" "observationDimensions dims = Some od"
    and c: "isFirstPosition sd ''CURRENCY'' cp" "dimValues (sd ! cp) = Some cv"
    and d: "isFirstPosition sd ''CURRENCY_DENOM'' dp" "dimValues (sd ! dp) = Some dv"
    and t: "isFirstPosition od ''TIME_PERIOD'' tp" "dimValues (od ! tp) = Some tv"
    by (auto simp: structureResolves_def split: option.splits)
  from c(1) have fc: "findDimensionIndex sd ''CURRENCY'' = Inr cp"
    by (simp add: isFirstPosition_findDimensionIndex)
  from d(1) have fd: "findDimensionIndex sd ''CURRENCY_DENOM'' = Inr dp"
    by (simp add: isFirstPosition_findDimensionIndex)
  from t(1) have ft: "findObservationDimensionIndex od ''TIME_PERIOD'' = Inr tp"
    by (simp add: isFirstPosition_findObservationDimensionIndex)
  from c d t have vs: "valuesAt sd cp = Some cv" "valuesAt sd dp = Some dv"
      "valuesAt od tp = Some tv"
    by (simp_all add: valuesAt_nth isFirstPosition_less)
  show ?thesis
    using assms(1,2) st dims arrays fc fd ft vs
    by (simp add: parseJsonResponse_def Let_def dataSets_loop)
qed

subsection \<open>The structural checks\<close>

lemma parseJsonResponse_no_data:
  "dataSets data = None \<or> dataSets data = Some [] \<Longrightarrow> parseJsonResponse f data = Inr []"
  by (auto simp: parseJsonResponse_def)

lemma parseJsonResponse_no_dimensions:
  assumes "dataSets data = Some dss" and "dss \<noteq> []"
    and "structureOf data = None \<or> (\<exists>st. structureOf data = Some st \<and> dimensions st = None)"
  shows "parseJsonResponse f data =
           Inl (EcbParseError ''SDMX-JSON response missing structure.dimensions.'')"
  using assms by (auto simp: parseJsonResponse_def)

lemma findDimensionIndex_absent:
  "\<forall>d \<in> set dims. dimId d \<noteq> t \<Longrightarrow>
     findDimensionIndex dims t =
       Inl (EcbParseError (''Missing series dimension '' @ quoted t @ '' in SDMX-JSON structure.''))"
  by (simp add: findDimensionIndex_Inl)

lemma findObservationDimensionIndex_absent:
  "\<forall>d \<in> set dims. dimId d \<noteq> t \<Longrightarrow>
     findObservationDimensionIndex dims t =
       Inl (EcbParseError
              (''Missing observation dimension '' @ quoted t @ '' in SDMX-JSON structure.''))"
  by (simp add: findObservationDimensionIndex_Inl)

lemma findDimensionIndex_present:
  "\<exists>d \<in> set dims. dimId d = t \<Longrightarrow> \<exists>i. findDimensionIndex dims t = Inr i"
  using findDimensionIndex_Inl [of dims t] by (cases "findDimensionIndex dims t") auto

lemma findObservationDimensionIndex_present:
  "\<exists>d \<in> set dims. dimId d = t \<Longrightarrow> \<exists>i. findObservationDimensionIndex dims t = Inr i"
  using findObservationDimensionIndex_Inl [of dims t]
  by (cases "findObservationDimensionIndex dims t") auto

text \<open>The runtime's error when \<^verbatim>\<open>dimensions\<close> is present without one of its arrays.\<close>

lemma parseJsonResponse_no_series_array:
  assumes "dataSets data = Some dss" and "dss \<noteq> []"
    and "structureOf data = Some st" and "dimensions st = Some dims"
    and "seriesDimensions dims = None"
  shows "parseJsonResponse f data = Inl TypeError"
  using assms by (simp add: parseJsonResponse_def)

lemma parseJsonResponse_no_observation_array:
  assumes "dataSets data = Some dss" and "dss \<noteq> []"
    and "structureOf data = Some st" and "dimensions st = Some dims"
    and "seriesDimensions dims = Some sd"
    and "\<exists>d \<in> set sd. dimId d = ''CURRENCY''"
    and "\<exists>d \<in> set sd. dimId d = ''CURRENCY_DENOM''"
    and "observationDimensions dims = None"
  shows "parseJsonResponse f data = Inl TypeError"
proof -
  from findDimensionIndex_present [OF assms(6)]
  obtain i where "findDimensionIndex sd ''CURRENCY'' = Inr i" ..
  moreover from findDimensionIndex_present [OF assms(7)]
  obtain j where "findDimensionIndex sd ''CURRENCY_DENOM'' = Inr j" ..
  ultimately show ?thesis
    using assms(1-5,8) by (simp add: parseJsonResponse_def)
qed

lemma parseJsonResponse_no_currency:
  assumes "dataSets data = Some dss" and "dss \<noteq> []"
    and "structureOf data = Some st" and "dimensions st = Some dims"
    and "seriesDimensions dims = Some sd"
    and "\<forall>d \<in> set sd. dimId d \<noteq> ''CURRENCY''"
  shows "parseJsonResponse f data =
           Inl (EcbParseError
                  (''Missing series dimension '' @ quoted ''CURRENCY'' @
                   '' in SDMX-JSON structure.''))"
  using assms(1-5) findDimensionIndex_absent [OF assms(6)]
  by (simp add: parseJsonResponse_def Let_def)

lemma parseJsonResponse_no_denom:
  assumes "dataSets data = Some dss" and "dss \<noteq> []"
    and "structureOf data = Some st" and "dimensions st = Some dims"
    and "seriesDimensions dims = Some sd"
    and "\<exists>d \<in> set sd. dimId d = ''CURRENCY''"
    and "\<forall>d \<in> set sd. dimId d \<noteq> ''CURRENCY_DENOM''"
  shows "parseJsonResponse f data =
           Inl (EcbParseError
                  (''Missing series dimension '' @ quoted ''CURRENCY_DENOM'' @
                   '' in SDMX-JSON structure.''))"
proof -
  from findDimensionIndex_present [OF assms(6)]
  obtain i where "findDimensionIndex sd ''CURRENCY'' = Inr i" ..
  with assms(1-5) findDimensionIndex_absent [OF assms(7)] show ?thesis
    by (simp add: parseJsonResponse_def Let_def)
qed

lemma parseJsonResponse_no_time:
  assumes "dataSets data = Some dss" and "dss \<noteq> []"
    and "structureOf data = Some st" and "dimensions st = Some dims"
    and "seriesDimensions dims = Some sd" and "observationDimensions dims = Some od"
    and "\<exists>d \<in> set sd. dimId d = ''CURRENCY''"
    and "\<exists>d \<in> set sd. dimId d = ''CURRENCY_DENOM''"
    and "\<forall>d \<in> set od. dimId d \<noteq> ''TIME_PERIOD''"
  shows "parseJsonResponse f data =
           Inl (EcbParseError
                  (''Missing observation dimension '' @ quoted ''TIME_PERIOD'' @
                   '' in SDMX-JSON structure.''))"
proof -
  from findDimensionIndex_present [OF assms(7)]
  obtain i where "findDimensionIndex sd ''CURRENCY'' = Inr i" ..
  moreover from findDimensionIndex_present [OF assms(8)]
  obtain j where "findDimensionIndex sd ''CURRENCY_DENOM'' = Inr j" ..
  ultimately show ?thesis
    using assms(1-6) findObservationDimensionIndex_absent [OF assms(9)]
    by (simp add: parseJsonResponse_def Let_def)
qed

lemma parseJsonResponse_no_values:
  assumes "dataSets data = Some dss" and "dss \<noteq> []"
    and "structureOf data = Some st" and "dimensions st = Some dims"
    and "seriesDimensions dims = Some sd" and "observationDimensions dims = Some od"
    and "isFirstPosition sd ''CURRENCY'' cp"
    and "isFirstPosition sd ''CURRENCY_DENOM'' dp"
    and "isFirstPosition od ''TIME_PERIOD'' tp"
    and "dimValues (sd ! cp) = None \<or> dimValues (sd ! dp) = None \<or> dimValues (od ! tp) = None"
  shows "parseJsonResponse f data =
           Inl (EcbParseError ''SDMX-JSON response missing dimension values.'')"
proof -
  from assms(7) have fc: "findDimensionIndex sd ''CURRENCY'' = Inr cp"
    by (simp add: isFirstPosition_findDimensionIndex)
  from assms(8) have fd: "findDimensionIndex sd ''CURRENCY_DENOM'' = Inr dp"
    by (simp add: isFirstPosition_findDimensionIndex)
  from assms(9) have ft: "findObservationDimensionIndex od ''TIME_PERIOD'' = Inr tp"
    by (simp add: isFirstPosition_findObservationDimensionIndex)
  from assms(7-10)
  have "valuesAt sd cp = None \<or> valuesAt sd dp = None \<or> valuesAt od tp = None"
    by (simp add: valuesAt_nth isFirstPosition_less)
  with assms(1-6) fc fd ft show ?thesis
    by (simp add: parseJsonResponse_def Let_def)
qed

text \<open>An error of the decoder does not depend on the data sets or on the reading of numbers.\<close>

lemma parseJsonResponse_error_independent:
  assumes "parseJsonResponse f data = Inl e" and "dss' \<noteq> []"
  shows "parseJsonResponse f' (data\<lparr>dataSets := Some dss'\<rparr>) = Inl e"
  using assms
  by (auto simp: parseJsonResponse_def Let_def split: option.splits sum.splits if_splits)

text \<open>
  An error of the decoder is a parse error or the runtime's \<open>TypeError\<close>, and it is
  a parse error when the two dimension arrays are present.
\<close>

lemma parseJsonResponse_error_kind:
  "parseJsonResponse f data = Inl e \<Longrightarrow> (\<exists>msg. e = EcbParseError msg) \<or> e = TypeError"
  by (auto simp: parseJsonResponse_def Let_def findDimensionIndex_def
        findObservationDimensionIndex_def
      split: option.splits sum.splits if_splits)

lemma parseJsonResponse_error_with_arrays:
  assumes "parseJsonResponse f data = Inl e"
    and "structureOf data = Some st" and "dimensions st = Some dims"
    and "seriesDimensions dims = Some sd" and "observationDimensions dims = Some od"
  shows "\<exists>msg. e = EcbParseError msg"
  using assms
  by (auto simp: parseJsonResponse_def Let_def findDimensionIndex_def
        findObservationDimensionIndex_def
      split: option.splits sum.splits if_splits)

lemma parseJsonResponse_total:
  assumes "structureResolves (structureOf data) cp dp tp cv dv tv"
  shows "\<exists>obs. parseJsonResponse f data = Inr obs"
proof (cases "dataSets data")
  case None
  then show ?thesis by (simp add: parseJsonResponse_no_data)
next
  case (Some dss)
  show ?thesis
  proof (cases "dss = []")
    case True
    with Some show ?thesis by (simp add: parseJsonResponse_no_data)
  next
    case False
    from parseJsonResponse_resolved [OF Some False assms] show ?thesis by blast
  qed
qed

lemma parseJsonResponse_Inr_resolves:
  assumes ds: "dataSets data = Some dss" and ne: "dss \<noteq> []"
    and run: "parseJsonResponse f data = Inr obs"
  shows "\<exists>cp dp tp cv dv tv. structureResolves (structureOf data) cp dp tp cv dv tv"
proof -
  from ds ne run obtain st dims sd od cp dp tp where
    st: "structureOf data = Some st" and dims: "dimensions st = Some dims"
    and arrays: "seriesDimensions dims = Some sd" "observationDimensions dims = Some od"
    and c: "findDimensionIndex sd ''CURRENCY'' = Inr cp"
    and d: "findDimensionIndex sd ''CURRENCY_DENOM'' = Inr dp"
    and t: "findObservationDimensionIndex od ''TIME_PERIOD'' = Inr tp"
    and v: "valuesAt sd cp \<noteq> None" "valuesAt sd dp \<noteq> None" "valuesAt od tp \<noteq> None"
    by (auto simp: parseJsonResponse_def Let_def split: option.splits sum.splits if_splits)
  from c have pc: "isFirstPosition sd ''CURRENCY'' cp"
    by (simp add: isFirstPosition_findDimensionIndex)
  from d have pd: "isFirstPosition sd ''CURRENCY_DENOM'' dp"
    by (simp add: isFirstPosition_findDimensionIndex)
  from t have pt: "isFirstPosition od ''TIME_PERIOD'' tp"
    by (simp add: isFirstPosition_findObservationDimensionIndex)
  from v pc pd pt obtain cv dv tv where
    "dimValues (sd ! cp) = Some cv" "dimValues (sd ! dp) = Some dv" "dimValues (od ! tp) = Some tv"
    by (auto simp: valuesAt_nth isFirstPosition_less)
  with st dims arrays pc pd pt
  have "structureResolves (structureOf data) cp dp tp cv dv tv"
    by (simp add: structureResolves_def)
  then show ?thesis by blast
qed

lemma parseJsonResponse_Inr_iff:
  assumes "dataSets data = Some dss" and "dss \<noteq> []"
  shows "(\<exists>obs. parseJsonResponse f data = Inr obs) =
         (\<exists>cp dp tp cv dv tv. structureResolves (structureOf data) cp dp tp cv dv tv)"
  using parseJsonResponse_Inr_resolves [OF assms] parseJsonResponse_total by blast

text \<open>
  Claim C2. With an absent or empty \<^verbatim>\<open>dataSets\<close> the decoder returns the empty
  list whatever the structure is, and with the two dimension arrays present
  every structural failure is the parse error the claim names (the lemmas
  above); so it is on the document of the decoder's own test, whose arrays are
  empty. The claim fails on a document whose \<^verbatim>\<open>structure.dimensions\<close> is present
  without its arrays: the structure has no \<^verbatim>\<open>CURRENCY\<close> series dimension and no
  \<^verbatim>\<open>TIME_PERIOD\<close> observation dimension, the data sets are not empty, and the
  decoder raises the runtime's \<open>TypeError\<close> instead of \<^verbatim>\<open>EcbParseError\<close>: for
  \<^verbatim>\<open>structure: { dimensions: {} }\<close> at the lookup of \<^verbatim>\<open>CURRENCY\<close>, and with
  the series array present but no observation array at the lookup of
  \<^verbatim>\<open>TIME_PERIOD\<close>.
\<close>

theorem absent_dimension_arrays_raise_TypeError:
  "parseJsonResponse decimalIndex MISSING_ARRAYS_RESPONSE = Inl TypeError
   \<and> parseJsonResponse decimalIndex MISSING_OBSERVATION_ARRAY_RESPONSE = Inl TypeError
   \<and> parseJsonResponse decimalIndex badResponse =
       Inl (EcbParseError
              (''Missing series dimension '' @ quoted ''CURRENCY'' @
               '' in SDMX-JSON structure.''))
   \<and> dataSets MISSING_ARRAYS_RESPONSE = dataSets SINGLE_CURRENCY_RESPONSE
   \<and> dataSets MISSING_ARRAYS_RESPONSE \<noteq> None
   \<and> dataSets MISSING_ARRAYS_RESPONSE \<noteq> Some []"
  by (simp add: parseJsonResponse_def MISSING_ARRAYS_RESPONSE_def
        MISSING_OBSERVATION_ARRAY_RESPONSE_def badResponse_def SINGLE_CURRENCY_RESPONSE_def
        fixtureSeriesDimensions_def findDimensionIndex_def findIndex_def quoted_def)

subsection \<open>Evaluation on concrete documents\<close>

lemma arrayGet_numeral [simp]:
  "arrayGet (x # xs) (numeral k) = arrayGet xs (pred_numeral k)"
  by (simp add: numeral_eq_Suc)

lemmas decoder_defs =
  parseJsonResponse_def findDimensionIndex_def findObservationDimensionIndex_def
  findIndex_def valuesAt_def processDataSet_def processSeries_def processObservation_def
  idAt_def arrayGetNum_def falsy_def quoted_def

lemmas fixture_defs =
  SINGLE_CURRENCY_RESPONSE_def MULTI_CURRENCY_RESPONSE_def fixtureStructure_def
  fixtureSeriesDimensions_def fixtureTimeValues_def SHORT_KEY_RESPONSE_def
  MALFORMED_ENTRIES_RESPONSE_def malformedSeries_def

lemma decimalIndex_0 [simp]: "decimalIndex ''0'' = Some 0"
  by (simp add: decimalIndex_def digitValue_def)

lemma decimalIndex_1 [simp]: "decimalIndex ''1'' = Some 1"
  by (simp add: decimalIndex_def digitValue_def)

lemma multi_fixture:
  assumes "f ''0'' = Some 0" and "f ''1'' = Some 1"
  shows "parseJsonResponse f MULTI_CURRENCY_RESPONSE =
     Inr [\<lparr> date = ''2025-01-15'', currency = ''USD'', baseCurrency = ''EUR'', rate = 1.03 \<rparr>,
          \<lparr> date = ''2025-01-16'', currency = ''USD'', baseCurrency = ''EUR'', rate = 1.0303 \<rparr>,
          \<lparr> date = ''2025-01-15'', currency = ''GBP'', baseCurrency = ''EUR'', rate = 0.8442 \<rparr>,
          \<lparr> date = ''2025-01-16'', currency = ''GBP'', baseCurrency = ''EUR'', rate = 0.8451 \<rparr>]"
  using assms by (simp add: decoder_defs fixture_defs Let_def)

lemma single_fixture:
  assumes "f ''0'' = Some 0" and "f ''1'' = Some 1"
  shows "parseJsonResponse f SINGLE_CURRENCY_RESPONSE =
     Inr [\<lparr> date = ''2025-01-15'', currency = ''USD'', baseCurrency = ''EUR'', rate = 1.03 \<rparr>,
          \<lparr> date = ''2025-01-16'', currency = ''USD'', baseCurrency = ''EUR'', rate = 1.0303 \<rparr>]"
  using assms by (simp add: decoder_defs fixture_defs Let_def)

lemma fixture_resolves:
  "structureResolves (Some (fixtureStructure cs)) 1 2 0
     cs [\<lparr> valueId = Some ''EUR'' \<rparr>] fixtureTimeValues"
  by (simp add: structureResolves_def fixtureStructure_def fixtureSeriesDimensions_def
        isFirstPosition_findDimensionIndex findDimensionIndex_def findIndex_def)


subsection \<open>The decoder as a filter over the pairs of the document\<close>

lemma map_filter_concat:
  "List.map_filter g (concat xss) = concat (map (List.map_filter g) xss)"
  by (induction xss) (simp_all add: List.map_filter_def)

lemma map_filter_map: "List.map_filter g (map h xs) = List.map_filter (g \<circ> h) xs"
  by (simp add: List.map_filter_def filter_map comp_def)

lemma concat_singletons:
  "concat (map (\<lambda>x. case g x of None \<Rightarrow> [] | Some y \<Rightarrow> [y]) xs) = List.map_filter g xs"
  by (induction xs) (auto simp: List.map_filter_def)

lemma processObservation_decode:
  assumes "c \<noteq> []" and "b \<noteq> []"
    and "selectedId cv (segmentAt f k cp) = Some c"
    and "selectedId dv (segmentAt f k dp) = Some b"
  shows "processObservation f tv c b [] (ok, ov) =
           (case decodePair f cp dp cv dv tv (k, ok, ov) of None \<Rightarrow> [] | Some ob \<Rightarrow> [ob])"
  using assms
  by (cases ov)
     (auto simp: processObservation_def decodePair_def selectedId_def rateOf_def falsy_def Let_def
           split: option.splits)

lemma processSeries_decode:
  "processSeries f cp dp cv dv tv [] e =
     List.map_filter (decodePair f cp dp cv dv tv) (pairsOfSeries e)"
proof (cases e)
  case (Pair k sd)
  show ?thesis
  proof (cases "selectedId cv (segmentAt f k cp) = None \<or> selectedId dv (segmentAt f k dp) = None")
    case True
    then have skip: "processSeries f cp dp cv dv tv [] (k, sd) = []"
      by (auto simp: processSeries_def selectedId_def segmentAt_def falsy_def Let_def
               split: option.splits if_splits)
    from True have "\<And>ok ov. decodePair f cp dp cv dv tv (k, ok, ov) = None"
      by (auto simp: decodePair_def split: option.splits)
    then have "List.map_filter (decodePair f cp dp cv dv tv) (pairsOfSeries (k, sd)) = []"
      by (auto simp: List.map_filter_def pairsOfSeries_def filter_empty_conv)
    with skip Pair show ?thesis by simp
  next
    case False
    then obtain c b where c: "selectedId cv (segmentAt f k cp) = Some c"
      and b: "selectedId dv (segmentAt f k dp) = Some b" by auto
    from c have cne: "c \<noteq> []" by (auto simp: selectedId_def split: option.splits if_splits)
    from b have bne: "b \<noteq> []" by (auto simp: selectedId_def split: option.splits if_splits)
    from c cne obtain ci where ci: "arrayGet (map f (split_colon k)) cp = Some ci" "idAt cv ci = Some c"
      by (auto simp: selectedId_def segmentAt_def split: option.splits if_splits)
    from b bne obtain di where di: "arrayGet (map f (split_colon k)) dp = Some di" "idAt dv di = Some b"
      by (auto simp: selectedId_def segmentAt_def split: option.splits if_splits)
    have "processSeries f cp dp cv dv tv [] (k, sd) =
            concat (map (processObservation f tv c b []) (observations sd))"
      using ci di cne bne by (simp add: processSeries_def Let_def falsy_def observations_loop)
    also have "\<dots> = concat (map (\<lambda>oe. case decodePair f cp dp cv dv tv (k, fst oe, snd oe) of
                                     None \<Rightarrow> [] | Some ob \<Rightarrow> [ob]) (observations sd))"
    proof -
      have "processObservation f tv c b [] =
              (\<lambda>oe. case decodePair f cp dp cv dv tv (k, fst oe, snd oe) of
                 None \<Rightarrow> [] | Some ob \<Rightarrow> [ob])"
      proof (rule ext)
        fix oe
        show "processObservation f tv c b [] oe =
                (case decodePair f cp dp cv dv tv (k, fst oe, snd oe) of
                   None \<Rightarrow> [] | Some ob \<Rightarrow> [ob])"
          using processObservation_decode [OF cne bne c b, of tv "fst oe" "snd oe"]
          by (cases oe) simp
      qed
      then show ?thesis by (rule arg_cong)
    qed
    also have "\<dots> = List.map_filter (\<lambda>oe. decodePair f cp dp cv dv tv (k, fst oe, snd oe))
                       (observations sd)"
      by (rule concat_singletons)
    also have "\<dots> = List.map_filter (decodePair f cp dp cv dv tv) (pairsOfSeries (k, sd))"
      by (simp add: pairsOfSeries_def map_filter_map comp_def)
    finally show ?thesis using Pair by simp
  qed
qed

lemma processDataSet_decode:
  "processDataSet f cp dp cv dv tv [] ds =
     List.map_filter (decodePair f cp dp cv dv tv) (pairsOfDataSet ds)"
proof -
  have eq: "processSeries f cp dp cv dv tv [] =
          (\<lambda>e. List.map_filter (decodePair f cp dp cv dv tv) (pairsOfSeries e))"
    by (rule ext) (rule processSeries_decode)
  show ?thesis
    by (cases "series ds")
       (simp_all only: eq processDataSet_def pairsOfDataSet_def series_loop map_filter_concat
          option.case append_Nil map_map comp_def, simp add: List.map_filter_def)
qed

lemma parseJsonResponse_decode:
  assumes "dataSets data = Some dss" and "dss \<noteq> []"
    and "structureResolves (structureOf data) cp dp tp cv dv tv"
  shows "parseJsonResponse f data =
           Inr (List.map_filter (decodePair f cp dp cv dv tv) (pairsOf dss))"
proof -
  have eq: "processDataSet f cp dp cv dv tv [] =
          (\<lambda>ds. List.map_filter (decodePair f cp dp cv dv tv) (pairsOfDataSet ds))"
    by (rule ext) (rule processDataSet_decode)
  show ?thesis
    by (simp only: eq parseJsonResponse_resolved [OF assms] pairsOf_def map_filter_concat map_map
          comp_def)
qed

lemma decodable_iff: "decodable f cp dp cv dv tv p = (decodePair f cp dp cv dv tv p \<noteq> None)"
  by (cases p) (auto simp: decodable_def decodePair_def split: option.splits)

lemma decodePair_fields:
  assumes "decodePair f cp dp cv dv tv (k, ok, ov) = Some ob"
  shows "selectedId cv (segmentAt f k cp) = Some (currency ob)
         \<and> selectedId dv (segmentAt f k dp) = Some (baseCurrency ob)
         \<and> selectedId tv (Some (f ok)) = Some (date ob)
         \<and> rateOf ov = Some (rate ob)"
  using assms by (auto simp: decodePair_def split: option.splits)

text \<open>
  Claim C1. For every document that satisfies the structural invariants and has
  at least one data set, the decoder returns one observation for each decodable
  (series, observation) pair and nothing else: the result has as many entries as
  there are decodable pairs (all pairs, when all are decodable), in document
  order, and each entry carries the currency and base currency selected by the
  series key's segments at the \<^verbatim>\<open>CURRENCY\<close> and \<^verbatim>\<open>CURRENCY_DENOM\<close> positions, the
  date selected by the observation key in the \<^verbatim>\<open>TIME_PERIOD\<close> vocabulary, and the
  tuple's rate. On the two-currency fixture, for every reading of numbers that
  reads \<^verbatim>\<open>"0"\<close> as 0 and \<^verbatim>\<open>"1"\<close> as 1, it returns the four observations
  USD/2025-01-15 at 1.03, USD/2025-01-16 at 1.0303, GBP/2025-01-15 at 0.8442 and
  GBP/2025-01-16 at 0.8451.
\<close>

theorem decode_one_observation_per_decodable_pair:
  "(dataSets data = Some dss \<and> dss \<noteq> []
      \<and> structureResolves (structureOf data) cp dp tp cv dv tv \<longrightarrow>
     (\<exists>obs. parseJsonResponse f data = Inr obs
        \<and> length obs = length (filter (decodable f cp dp cv dv tv) (pairsOf dss))
        \<and> ((\<forall>p \<in> set (pairsOf dss). decodable f cp dp cv dv tv p) \<longrightarrow>
             length obs = length (pairsOf dss))
        \<and> list_all2
             (\<lambda>triple ob. case triple of (seriesKey, obsKey, obsValues) \<Rightarrow>
                selectedId cv (segmentAt f seriesKey cp) = Some (currency ob)
                \<and> selectedId dv (segmentAt f seriesKey dp) = Some (baseCurrency ob)
                \<and> selectedId tv (Some (f obsKey)) = Some (date ob)
                \<and> rateOf obsValues = Some (rate ob))
             (filter (decodable f cp dp cv dv tv) (pairsOf dss)) obs))
   \<and> (g ''0'' = Some 0 \<and> g ''1'' = Some 1 \<longrightarrow>
        parseJsonResponse g MULTI_CURRENCY_RESPONSE =
          Inr [\<lparr> date = ''2025-01-15'', currency = ''USD'', baseCurrency = ''EUR'', rate = 1.03 \<rparr>,
               \<lparr> date = ''2025-01-16'', currency = ''USD'', baseCurrency = ''EUR'', rate = 1.0303 \<rparr>,
               \<lparr> date = ''2025-01-15'', currency = ''GBP'', baseCurrency = ''EUR'', rate = 0.8442 \<rparr>,
               \<lparr> date = ''2025-01-16'', currency = ''GBP'', baseCurrency = ''EUR'', rate = 0.8451 \<rparr>])"
proof (intro conjI impI)
  assume a: "dataSets data = Some dss \<and> dss \<noteq> []
             \<and> structureResolves (structureOf data) cp dp tp cv dv tv"
  let ?good = "filter (decodable f cp dp cv dv tv) (pairsOf dss)"
  let ?obs = "List.map_filter (decodePair f cp dp cv dv tv) (pairsOf dss)"
  from a have res: "parseJsonResponse f data = Inr ?obs"
    using parseJsonResponse_decode [of data dss cp dp tp cv dv tv f] by blast
  have same: "filter (\<lambda>p. decodePair f cp dp cv dv tv p \<noteq> None) (pairsOf dss) = ?good"
    by (rule filter_cong) (simp_all only: decodable_iff)
  have form: "?obs = map (the \<circ> decodePair f cp dp cv dv tv) ?good"
    by (simp add: List.map_filter_def same [symmetric])
  have len: "length ?obs = length ?good" by (simp add: form)
  have all: "(\<forall>p \<in> set (pairsOf dss). decodable f cp dp cv dv tv p) \<longrightarrow>
               length ?obs = length (pairsOf dss)"
    by (simp add: len)
  have rel: "list_all2
             (\<lambda>triple ob. case triple of (seriesKey, obsKey, obsValues) \<Rightarrow>
                selectedId cv (segmentAt f seriesKey cp) = Some (currency ob)
                \<and> selectedId dv (segmentAt f seriesKey dp) = Some (baseCurrency ob)
                \<and> selectedId tv (Some (f obsKey)) = Some (date ob)
                \<and> rateOf obsValues = Some (rate ob))
             ?good ?obs"
    unfolding form list_all2_map2
  proof (rule list_all2_all_nthI)
    show "length ?good = length ?good" ..
  next
    fix n assume "n < length ?good"
    then have mem: "?good ! n \<in> set ?good" by (rule nth_mem)
    obtain k ok ov where p: "?good ! n = (k, ok, ov)" by (cases "?good ! n") auto
    from mem have "decodable f cp dp cv dv tv (?good ! n)" by simp
    with p obtain ob where ob: "decodePair f cp dp cv dv tv (k, ok, ov) = Some ob"
      by (auto simp: decodable_iff)
    from decodePair_fields [OF ob] p ob
    show "case ?good ! n of (seriesKey, obsKey, obsValues) \<Rightarrow>
            selectedId cv (segmentAt f seriesKey cp) =
              Some (currency ((the \<circ> decodePair f cp dp cv dv tv) (?good ! n)))
            \<and> selectedId dv (segmentAt f seriesKey dp) =
              Some (baseCurrency ((the \<circ> decodePair f cp dp cv dv tv) (?good ! n)))
            \<and> selectedId tv (Some (f obsKey)) =
              Some (date ((the \<circ> decodePair f cp dp cv dv tv) (?good ! n)))
            \<and> rateOf obsValues =
              Some (rate ((the \<circ> decodePair f cp dp cv dv tv) (?good ! n)))"
      by simp
  qed
  from res len all rel
  show "\<exists>obs. parseJsonResponse f data = Inr obs
        \<and> length obs = length ?good
        \<and> ((\<forall>p \<in> set (pairsOf dss). decodable f cp dp cv dv tv p) \<longrightarrow>
             length obs = length (pairsOf dss))
        \<and> list_all2
             (\<lambda>triple ob. case triple of (seriesKey, obsKey, obsValues) \<Rightarrow>
                selectedId cv (segmentAt f seriesKey cp) = Some (currency ob)
                \<and> selectedId dv (segmentAt f seriesKey dp) = Some (baseCurrency ob)
                \<and> selectedId tv (Some (f obsKey)) = Some (date ob)
                \<and> rateOf obsValues = Some (rate ob))
             ?good obs"
    by blast
next
  assume "g ''0'' = Some 0 \<and> g ''1'' = Some 1"
  then show "parseJsonResponse g MULTI_CURRENCY_RESPONSE =
          Inr [\<lparr> date = ''2025-01-15'', currency = ''USD'', baseCurrency = ''EUR'', rate = 1.03 \<rparr>,
               \<lparr> date = ''2025-01-16'', currency = ''USD'', baseCurrency = ''EUR'', rate = 1.0303 \<rparr>,
               \<lparr> date = ''2025-01-15'', currency = ''GBP'', baseCurrency = ''EUR'', rate = 0.8442 \<rparr>,
               \<lparr> date = ''2025-01-16'', currency = ''GBP'', baseCurrency = ''EUR'', rate = 0.8451 \<rparr>]"
    using multi_fixture [of g] by blast
qed


lemma rateOf_simps [simp]: "rateOf [] = None" "rateOf (r # rs) = r"
  by (simp_all add: rateOf_def)

theorem decode_one_observation_per_decodable_pair_witness:
  "structureResolves (structureOf SINGLE_CURRENCY_RESPONSE) 1 2 0
     [\<lparr> valueId = Some ''USD'' \<rparr>] [\<lparr> valueId = Some ''EUR'' \<rparr>] fixtureTimeValues
   \<and> (\<exists>obs. parseJsonResponse decimalIndex SINGLE_CURRENCY_RESPONSE = Inr obs \<and> length obs = 2)
   \<and> parseJsonResponse decimalIndex MULTI_CURRENCY_RESPONSE =
       Inr [\<lparr> date = ''2025-01-15'', currency = ''USD'', baseCurrency = ''EUR'', rate = 1.03 \<rparr>,
            \<lparr> date = ''2025-01-16'', currency = ''USD'', baseCurrency = ''EUR'', rate = 1.0303 \<rparr>,
            \<lparr> date = ''2025-01-15'', currency = ''GBP'', baseCurrency = ''EUR'', rate = 0.8442 \<rparr>,
            \<lparr> date = ''2025-01-16'', currency = ''GBP'', baseCurrency = ''EUR'', rate = 0.8451 \<rparr>]"
proof -
  let ?dss = "[\<lparr> series = Some
                 [(''0:0:0:0:0'',
                   \<lparr> observations =
                       [(''0'', [Some (1.03 :: real), Some 0, Some 0, None, None]),
                        (''1'', [Some 1.0303, Some 0, Some 0, None, None])] \<rparr>)] \<rparr>]"
  let ?cv = "[\<lparr> valueId = Some ''USD'' \<rparr>]"
  let ?dv = "[\<lparr> valueId = Some ''EUR'' \<rparr>]"
  have ds: "dataSets SINGLE_CURRENCY_RESPONSE = Some ?dss" "?dss \<noteq> []"
    by (simp_all add: SINGLE_CURRENCY_RESPONSE_def)
  have res: "structureResolves (structureOf SINGLE_CURRENCY_RESPONSE) 1 2 0 ?cv ?dv fixtureTimeValues"
    using fixture_resolves [of ?cv] by (simp add: SINGLE_CURRENCY_RESPONSE_def)
  have count: "length (filter (decodable decimalIndex 1 2 ?cv ?dv fixtureTimeValues) (pairsOf ?dss)) = 2"
    by (simp add: pairsOf_def pairsOfDataSet_def pairsOfSeries_def decodable_def selectedId_def
          segmentAt_def idAt_def arrayGetNum_def fixtureTimeValues_def
        del: not_None_eq)
  note inst = decode_one_observation_per_decodable_pair
      [of SINGLE_CURRENCY_RESPONSE ?dss 1 2 0 ?cv ?dv fixtureTimeValues decimalIndex decimalIndex]
  from inst ds res count
  have "\<exists>obs. parseJsonResponse decimalIndex SINGLE_CURRENCY_RESPONSE = Inr obs \<and> length obs = 2"
    by auto
  moreover from inst
  have "parseJsonResponse decimalIndex MULTI_CURRENCY_RESPONSE =
       Inr [\<lparr> date = ''2025-01-15'', currency = ''USD'', baseCurrency = ''EUR'', rate = 1.03 \<rparr>,
            \<lparr> date = ''2025-01-16'', currency = ''USD'', baseCurrency = ''EUR'', rate = 1.0303 \<rparr>,
            \<lparr> date = ''2025-01-15'', currency = ''GBP'', baseCurrency = ''EUR'', rate = 0.8442 \<rparr>,
            \<lparr> date = ''2025-01-16'', currency = ''GBP'', baseCurrency = ''EUR'', rate = 0.8451 \<rparr>]"
    by simp
  ultimately show ?thesis using res by blast
qed

subsection \<open>Skipped series\<close>

lemma structureOf_dataSets_update [simp]:
  "structureOf (data\<lparr>dataSets := x\<rparr>) = structureOf data"
  by simp

lemma processDataSet_drop_series:
  assumes "series ds = Some (before @ e # after)"
    and "processSeries f cp dp cv dv tv [] e = []"
  shows "processDataSet f cp dp cv dv tv [] (ds\<lparr>series := Some (before @ after)\<rparr>) =
         processDataSet f cp dp cv dv tv [] ds"
proof -
  have "processDataSet f cp dp cv dv tv [] ds =
          concat (map (processSeries f cp dp cv dv tv []) (before @ e # after))"
    using assms(1) by (simp only: processDataSet_def series_loop option.case append_Nil)
  moreover
  have "processDataSet f cp dp cv dv tv [] (ds\<lparr>series := Some (before @ after)\<rparr>) =
          concat (map (processSeries f cp dp cv dv tv []) (before @ after))"
    by (simp add: processDataSet_def series_loop del: foldl_append)
  ultimately show ?thesis using assms(2) by simp
qed

lemma parseJsonResponse_drop_series:
  assumes res: "structureResolves (structureOf data) cp dp tp cv dv tv"
    and ds: "dataSets data = Some (pre @ ds # post)"
    and se: "series ds = Some (before @ e # after)"
    and skip: "processSeries f cp dp cv dv tv [] e = []"
  shows "\<exists>obs. parseJsonResponse f data = Inr obs
           \<and> parseJsonResponse f
               (data\<lparr>dataSets := Some (pre @ ds\<lparr>series := Some (before @ after)\<rparr> # post)\<rparr>) =
               Inr obs"
proof -
  let ?data' = "data\<lparr>dataSets := Some (pre @ ds\<lparr>series := Some (before @ after)\<rparr> # post)\<rparr>"
  have ne: "pre @ ds # post \<noteq> []" by simp
  have r1: "parseJsonResponse f data =
              Inr (concat (map (processDataSet f cp dp cv dv tv []) (pre @ ds # post)))"
    by (rule parseJsonResponse_resolved [OF ds ne res])
  have ds': "dataSets ?data' = Some (pre @ ds\<lparr>series := Some (before @ after)\<rparr> # post)"
    by simp
  have ne': "pre @ ds\<lparr>series := Some (before @ after)\<rparr> # post \<noteq> []" by simp
  have res': "structureResolves (structureOf ?data') cp dp tp cv dv tv"
    using res by simp
  have r2: "parseJsonResponse f ?data' =
              Inr (concat (map (processDataSet f cp dp cv dv tv [])
                     (pre @ ds\<lparr>series := Some (before @ after)\<rparr> # post)))"
    by (rule parseJsonResponse_resolved [OF ds' ne' res'])
  from r1 r2 processDataSet_drop_series [OF se skip] show ?thesis by simp
qed

lemma processSeries_skip:
  assumes "segmentAt f k cp = None \<or> segmentAt f k dp = None
           \<or> (\<exists>n. segmentAt f k cp = Some n \<and> falsy (idAt cv n))
           \<or> (\<exists>n. segmentAt f k dp = Some n \<and> falsy (idAt dv n))"
  shows "processSeries f cp dp cv dv tv acc (k, sd) = acc"
  using assms by (auto simp: processSeries_def segmentAt_def Let_def)

text \<open>
  Claim C4. In a document that satisfies the structural invariants, a series
  whose key has no segment at the \<^verbatim>\<open>CURRENCY\<close> or the \<^verbatim>\<open>CURRENCY_DENOM\<close> position,
  or whose segment there selects no identifier in the vocabulary (the index is
  not a position of the vocabulary, or the value there has no \<^verbatim>\<open>id\<close>, or an empty
  one), is skipped: the iteration of the series loop leaves the \<^verbatim>\<open>observations\<close>
  array as it was, the decoder raises no error, and its result is the result for
  the document without that series.
\<close>

theorem unresolved_series_is_skipped:
  assumes "structureResolves (structureOf data) cp dp tp cv dv tv"
    and "dataSets data = Some (pre @ ds # post)"
    and "series ds = Some (before @ (seriesKey, seriesData) # after)"
    and "segmentAt f seriesKey cp = None \<or> segmentAt f seriesKey dp = None
         \<or> (\<exists>n. segmentAt f seriesKey cp = Some n \<and> falsy (idAt cv n))
         \<or> (\<exists>n. segmentAt f seriesKey dp = Some n \<and> falsy (idAt dv n))"
  shows "processSeries f cp dp cv dv tv acc (seriesKey, seriesData) = acc
         \<and> (\<exists>obs. parseJsonResponse f data = Inr obs
               \<and> parseJsonResponse f
                   (data\<lparr>dataSets :=
                      Some (pre @ ds\<lparr>series := Some (before @ after)\<rparr> # post)\<rparr>) = Inr obs)"
proof
  show "processSeries f cp dp cv dv tv acc (seriesKey, seriesData) = acc"
    by (rule processSeries_skip [OF assms(4)])
next
  have "processSeries f cp dp cv dv tv [] (seriesKey, seriesData) = []"
    by (rule processSeries_skip [OF assms(4)])
  with assms(1-3) show "\<exists>obs. parseJsonResponse f data = Inr obs
               \<and> parseJsonResponse f
                   (data\<lparr>dataSets :=
                      Some (pre @ ds\<lparr>series := Some (before @ after)\<rparr> # post)\<rparr>) = Inr obs"
    by (rule parseJsonResponse_drop_series)
qed

lemma segmentAt_None: "(segmentAt f k pos = None) = (length (split_colon k) \<le> pos)"
  by (simp add: segmentAt_def arrayGet_None)

lemma processSeries_segments_only:
  assumes "segmentAt f k' cp = segmentAt f k cp" and "segmentAt f k' dp = segmentAt f k dp"
  shows "processSeries f cp dp cv dv tv acc (k', sd) = processSeries f cp dp cv dv tv acc (k, sd)"
  using assms by (simp add: processSeries_def segmentAt_def Let_def)

text \<open>
  Claim C3, as amended. The decoder never compares the number of segments of a
  series key with the number of series dimensions. In a document that satisfies
  the structural invariants, a series whose key has at most \<open>max cp dp\<close> segments
  (so that one of the two positions has no segment) is skipped, the result being
  that of the document without the series; for any other key the outcome
  depends only on the two segments at the \<^verbatim>\<open>CURRENCY\<close> and \<^verbatim>\<open>CURRENCY_DENOM\<close>
  positions, whatever the number of segments; and the decoder raises no error.
\<close>

theorem short_key_is_skipped:
  assumes "structureResolves (structureOf data) cp dp tp cv dv tv"
    and "dataSets data = Some (pre @ ds # post)"
    and "series ds = Some (before @ (seriesKey, seriesData) # after)"
  shows "(length (split_colon seriesKey) \<le> max cp dp \<longrightarrow>
            processSeries f cp dp cv dv tv acc (seriesKey, seriesData) = acc
            \<and> (\<exists>obs. parseJsonResponse f data = Inr obs
                  \<and> parseJsonResponse f
                      (data\<lparr>dataSets :=
                         Some (pre @ ds\<lparr>series := Some (before @ after)\<rparr> # post)\<rparr>) = Inr obs))
         \<and> (\<forall>key'. segmentAt f key' cp = segmentAt f seriesKey cp
                    \<and> segmentAt f key' dp = segmentAt f seriesKey dp \<longrightarrow>
               processSeries f cp dp cv dv tv acc (key', seriesData) =
               processSeries f cp dp cv dv tv acc (seriesKey, seriesData))
         \<and> (\<exists>obs. parseJsonResponse f data = Inr obs)"
proof (intro conjI impI allI)
  assume short: "length (split_colon seriesKey) \<le> max cp dp"
  then have none: "segmentAt f seriesKey cp = None \<or> segmentAt f seriesKey dp = None"
    by (auto simp: segmentAt_None)
  then show "processSeries f cp dp cv dv tv acc (seriesKey, seriesData) = acc"
    by (intro processSeries_skip) blast
  from none have "processSeries f cp dp cv dv tv [] (seriesKey, seriesData) = []"
    by (intro processSeries_skip) blast
  with assms show "\<exists>obs. parseJsonResponse f data = Inr obs
                  \<and> parseJsonResponse f
                      (data\<lparr>dataSets :=
                         Some (pre @ ds\<lparr>series := Some (before @ after)\<rparr> # post)\<rparr>) = Inr obs"
    by (rule parseJsonResponse_drop_series)
next
  fix key'
  assume "segmentAt f key' cp = segmentAt f seriesKey cp
          \<and> segmentAt f key' dp = segmentAt f seriesKey dp"
  then show "processSeries f cp dp cv dv tv acc (key', seriesData) =
             processSeries f cp dp cv dv tv acc (seriesKey, seriesData)"
    by (intro processSeries_segments_only) simp_all
next
  show "\<exists>obs. parseJsonResponse f data = Inr obs"
    by (rule parseJsonResponse_total [OF assms(1)])
qed

text \<open>
  Claim C3 as stated fails: the only series key of \<open>SHORT_KEY_RESPONSE\<close> has
  three segments, the structure has five series dimensions, and the series is
  decoded.
\<close>

theorem segment_count_mismatch_counterexample:
  "structureResolves (structureOf SHORT_KEY_RESPONSE) 1 2 0
     [\<lparr> valueId = Some ''USD'' \<rparr>] [\<lparr> valueId = Some ''EUR'' \<rparr>] fixtureTimeValues
   \<and> length (split_colon ''0:0:0'') = 3
   \<and> length (fixtureSeriesDimensions [\<lparr> valueId = Some ''USD'' \<rparr>]) = 5
   \<and> parseJsonResponse decimalIndex SHORT_KEY_RESPONSE =
       Inr [\<lparr> date = ''2025-01-15'', currency = ''USD'', baseCurrency = ''EUR'', rate = 1.03 \<rparr>,
            \<lparr> date = ''2025-01-16'', currency = ''USD'', baseCurrency = ''EUR'', rate = 1.0303 \<rparr>]"
proof -
  have "structureResolves (structureOf SHORT_KEY_RESPONSE) 1 2 0
     [\<lparr> valueId = Some ''USD'' \<rparr>] [\<lparr> valueId = Some ''EUR'' \<rparr>] fixtureTimeValues"
    using fixture_resolves [of "[\<lparr> valueId = Some ''USD'' \<rparr>]"]
    by (simp add: SHORT_KEY_RESPONSE_def)
  moreover have "length (split_colon ''0:0:0'') = 3"
    by simp
  moreover have "length (fixtureSeriesDimensions [\<lparr> valueId = Some ''USD'' \<rparr>]) = 5"
    by (simp add: fixtureSeriesDimensions_def)
  moreover have "parseJsonResponse decimalIndex SHORT_KEY_RESPONSE =
       Inr [\<lparr> date = ''2025-01-15'', currency = ''USD'', baseCurrency = ''EUR'', rate = 1.03 \<rparr>,
            \<lparr> date = ''2025-01-16'', currency = ''USD'', baseCurrency = ''EUR'', rate = 1.0303 \<rparr>]"
    by (simp add: decoder_defs fixture_defs Let_def)
  ultimately show ?thesis by blast
qed

lemma fixture_pair_resolves:
  "structureResolves
     (Some (fixtureStructure [\<lparr> valueId = Some ''USD'' \<rparr>, \<lparr> valueId = None \<rparr>])) 1 2 0
     [\<lparr> valueId = Some ''USD'' \<rparr>, \<lparr> valueId = None \<rparr>] [\<lparr> valueId = Some ''EUR'' \<rparr>]
     fixtureTimeValues"
  by (rule fixture_resolves)

lemma malformed_result:
  "parseJsonResponse decimalIndex MALFORMED_ENTRIES_RESPONSE =
     Inr [\<lparr> date = ''2025-01-16'', currency = ''USD'', baseCurrency = ''EUR'', rate = 2 \<rparr>,
          \<lparr> date = ''2025-01-15'', currency = ''USD'', baseCurrency = ''EUR'', rate = 1.03 \<rparr>]"
  by (simp add: decoder_defs fixture_defs Let_def decimalIndex_def digitValue_def)

theorem unresolved_series_is_skipped_witness:
  "segmentAt decimalIndex ''0:9:0:0:0'' 1 = Some (Some 9)
   \<and> falsy (idAt [\<lparr> valueId = Some ''USD'' \<rparr>, \<lparr> valueId = None \<rparr>] (Some 9))
   \<and> malformedSeries ! 2 = (''0:9:0:0:0'', \<lparr> observations = [(''0'', [Some 3])] \<rparr>)
   \<and> (\<exists>obs. parseJsonResponse decimalIndex MALFORMED_ENTRIES_RESPONSE = Inr obs
          \<and> parseJsonResponse decimalIndex
               (MALFORMED_ENTRIES_RESPONSE
                  \<lparr>dataSets :=
                     Some ([\<lparr> series = None \<rparr>] @
                           \<lparr> series = Some malformedSeries \<rparr>
                             \<lparr>series := Some (take 2 malformedSeries @ drop 3 malformedSeries)\<rparr> #
                           [])\<rparr>) = Inr obs)"
proof -
  let ?cv = "[\<lparr> valueId = Some ''USD'' \<rparr>, \<lparr> valueId = None \<rparr>]"
  let ?dv = "[\<lparr> valueId = Some ''EUR'' \<rparr>]"
  let ?sd = "\<lparr> observations = [(''0'', [Some (3 :: real)])] \<rparr>"
  have seg: "segmentAt decimalIndex ''0:9:0:0:0'' 1 = Some (Some 9)"
    by (simp add: segmentAt_def decimalIndex_def digitValue_def)
  have fal: "falsy (idAt ?cv (Some 9))"
    by (simp add: falsy_def idAt_def arrayGetNum_def)
  have nth: "malformedSeries ! 2 = (''0:9:0:0:0'', ?sd)"
    by (simp add: malformedSeries_def)
  have res: "structureResolves (structureOf MALFORMED_ENTRIES_RESPONSE) 1 2 0 ?cv ?dv
               fixtureTimeValues"
    using fixture_pair_resolves by (simp add: MALFORMED_ENTRIES_RESPONSE_def)
  have ds: "dataSets MALFORMED_ENTRIES_RESPONSE =
              Some ([\<lparr> series = None \<rparr>] @ \<lparr> series = Some malformedSeries \<rparr> # [])"
    by (simp add: MALFORMED_ENTRIES_RESPONSE_def)
  have se: "series \<lparr> series = Some malformedSeries \<rparr> =
              Some (take 2 malformedSeries @ (''0:9:0:0:0'', ?sd) # drop 3 malformedSeries)"
    by (simp add: malformedSeries_def)
  have bad: "segmentAt decimalIndex ''0:9:0:0:0'' 1 = None
             \<or> segmentAt decimalIndex ''0:9:0:0:0'' 2 = None
             \<or> (\<exists>n. segmentAt decimalIndex ''0:9:0:0:0'' 1 = Some n \<and> falsy (idAt ?cv n))
             \<or> (\<exists>n. segmentAt decimalIndex ''0:9:0:0:0'' 2 = Some n \<and> falsy (idAt ?dv n))"
    using seg fal by blast
  from unresolved_series_is_skipped [OF res ds se bad, of "[]"] seg fal nth
  show ?thesis by blast
qed

theorem short_key_is_skipped_witness:
  "length (split_colon ''USD:EUR'') = 2
   \<and> hd malformedSeries = (''USD:EUR'', \<lparr> observations = [(''0'', [Some 1])] \<rparr>)
   \<and> (\<exists>obs. parseJsonResponse decimalIndex MALFORMED_ENTRIES_RESPONSE = Inr obs
          \<and> parseJsonResponse decimalIndex
               (MALFORMED_ENTRIES_RESPONSE
                  \<lparr>dataSets :=
                     Some ([\<lparr> series = None \<rparr>] @
                           \<lparr> series = Some malformedSeries \<rparr>
                             \<lparr>series := Some ([] @ tl malformedSeries)\<rparr> #
                           [])\<rparr>) = Inr obs)
   \<and> segmentAt decimalIndex ''A:B'' 1 = segmentAt decimalIndex ''USD:EUR'' 1
   \<and> segmentAt decimalIndex ''A:B'' 2 = segmentAt decimalIndex ''USD:EUR'' 2
   \<and> processSeries decimalIndex 1 2 [\<lparr> valueId = Some ''USD'' \<rparr>, \<lparr> valueId = None \<rparr>]
        [\<lparr> valueId = Some ''EUR'' \<rparr>] fixtureTimeValues []
        (''A:B'', \<lparr> observations = [(''0'', [Some (1 :: real)])] \<rparr>) =
       processSeries decimalIndex 1 2 [\<lparr> valueId = Some ''USD'' \<rparr>, \<lparr> valueId = None \<rparr>]
        [\<lparr> valueId = Some ''EUR'' \<rparr>] fixtureTimeValues []
        (''USD:EUR'', \<lparr> observations = [(''0'', [Some 1])] \<rparr>)"
proof -
  let ?cv = "[\<lparr> valueId = Some ''USD'' \<rparr>, \<lparr> valueId = None \<rparr>]"
  let ?dv = "[\<lparr> valueId = Some ''EUR'' \<rparr>]"
  let ?sd = "\<lparr> observations = [(''0'', [Some (1 :: real)])] \<rparr>"
  have len: "length (split_colon ''USD:EUR'') = 2" by simp
  have first: "hd malformedSeries = (''USD:EUR'', ?sd)"
    by (simp add: malformedSeries_def)
  have res: "structureResolves (structureOf MALFORMED_ENTRIES_RESPONSE) 1 2 0 ?cv ?dv
               fixtureTimeValues"
    using fixture_pair_resolves by (simp add: MALFORMED_ENTRIES_RESPONSE_def)
  have ds: "dataSets MALFORMED_ENTRIES_RESPONSE =
              Some ([\<lparr> series = None \<rparr>] @ \<lparr> series = Some malformedSeries \<rparr> # [])"
    by (simp add: MALFORMED_ENTRIES_RESPONSE_def)
  have se: "series \<lparr> series = Some malformedSeries \<rparr> =
              Some ([] @ (''USD:EUR'', ?sd) # tl malformedSeries)"
    by (simp add: malformedSeries_def)
  have short: "length (split_colon ''USD:EUR'') \<le> max (1 :: nat) 2" by simp
  have segs: "segmentAt decimalIndex ''A:B'' 1 = segmentAt decimalIndex ''USD:EUR'' 1
              \<and> segmentAt decimalIndex ''A:B'' 2 = segmentAt decimalIndex ''USD:EUR'' 2"
    by (simp add: segmentAt_def decimalIndex_def digitValue_def)
  note inst = short_key_is_skipped [OF res ds se, of decimalIndex "[]"]
  from inst [THEN conjunct1, THEN mp, OF short, THEN conjunct2]
  have skipped: "\<exists>obs. parseJsonResponse decimalIndex MALFORMED_ENTRIES_RESPONSE = Inr obs
          \<and> parseJsonResponse decimalIndex
               (MALFORMED_ENTRIES_RESPONSE
                  \<lparr>dataSets :=
                     Some ([\<lparr> series = None \<rparr>] @
                           \<lparr> series = Some malformedSeries \<rparr>
                             \<lparr>series := Some ([] @ tl malformedSeries)\<rparr> #
                           [])\<rparr>) = Inr obs" .
  from inst [THEN conjunct2, THEN conjunct1, THEN spec, THEN mp, OF segs]
  have same: "processSeries decimalIndex 1 2 ?cv ?dv fixtureTimeValues [] (''A:B'', ?sd) =
              processSeries decimalIndex 1 2 ?cv ?dv fixtureTimeValues [] (''USD:EUR'', ?sd)" .
  from len first skipped segs same show ?thesis by (intro conjI) simp_all
qed

text \<open>
  Claim C9. Once the structural checks succeed, decoding is total: whatever the
  data sets hold and however the key segments read as numbers, the decoder
  returns a list of observations and raises no error.
\<close>

theorem decoding_never_throws:
  assumes "structureResolves (structureOf data) cp dp tp cv dv tv"
  shows "(\<exists>obs. parseJsonResponse f data = Inr obs) \<and> (\<forall>e. parseJsonResponse f data \<noteq> Inl e)"
  using parseJsonResponse_total [OF assms, of f] by auto

theorem decoding_never_throws_witness:
  "structureResolves (structureOf MALFORMED_ENTRIES_RESPONSE) 1 2 0
     [\<lparr> valueId = Some ''USD'' \<rparr>, \<lparr> valueId = None \<rparr>] [\<lparr> valueId = Some ''EUR'' \<rparr>]
     fixtureTimeValues
   \<and> (\<exists>obs. parseJsonResponse decimalIndex MALFORMED_ENTRIES_RESPONSE = Inr obs)
   \<and> parseJsonResponse decimalIndex MALFORMED_ENTRIES_RESPONSE =
       Inr [\<lparr> date = ''2025-01-16'', currency = ''USD'', baseCurrency = ''EUR'', rate = 2 \<rparr>,
            \<lparr> date = ''2025-01-15'', currency = ''USD'', baseCurrency = ''EUR'', rate = 1.03 \<rparr>]"
proof -
  have res: "structureResolves (structureOf MALFORMED_ENTRIES_RESPONSE) 1 2 0
     [\<lparr> valueId = Some ''USD'' \<rparr>, \<lparr> valueId = None \<rparr>] [\<lparr> valueId = Some ''EUR'' \<rparr>]
     fixtureTimeValues"
    using fixture_pair_resolves by (simp add: MALFORMED_ENTRIES_RESPONSE_def)
  from decoding_never_throws [OF res, of decimalIndex] res malformed_result
  show ?thesis by blast
qed

subsection \<open>Single observations\<close>

lemma processObservation_outcome:
  "processObservation f tv c b acc (obsKey, obsValues) =
     acc @
     (case idAt tv (f obsKey) of
        None \<Rightarrow> []
      | Some d \<Rightarrow>
          if d = [] then []
          else (case obsValues of
                  [] \<Rightarrow> []
                | None # _ \<Rightarrow> []
                | Some r # _ \<Rightarrow> [\<lparr> date = d, currency = c, baseCurrency = b, rate = r \<rparr>]))"
  by (auto simp: processObservation_def Let_def falsy_def split: option.splits list.splits)

lemma processSeries_resolved:
  assumes "segmentAt f seriesKey cp = Some ci" and "segmentAt f seriesKey dp = Some di"
    and "idAt cv ci = Some c" and "c \<noteq> []"
    and "idAt dv di = Some b" and "b \<noteq> []"
  shows "processSeries f cp dp cv dv tv acc (seriesKey, seriesData) =
           acc @ concat (map (processObservation f tv c b []) (observations seriesData))"
  using assms by (simp add: processSeries_def segmentAt_def Let_def falsy_def observations_loop)

lemma parseJsonResponse_at_observation:
  assumes res: "structureResolves (structureOf data) cp dp tp cv dv tv"
    and ds: "dataSets data = Some (pre @ ds # post)"
    and se: "series ds = Some (before @ (seriesKey, seriesData) # after)"
    and ob: "observations seriesData = earlier @ entry # later"
    and key: "segmentAt f seriesKey cp = Some ci" "segmentAt f seriesKey dp = Some di"
      "idAt cv ci = Some c" "c \<noteq> []" "idAt dv di = Some b" "b \<noteq> []"
  shows "\<exists>xs ys.
           parseJsonResponse f
             (data\<lparr>dataSets :=
                Some (pre @
                      ds\<lparr>series :=
                           Some (before @
                                 (seriesKey, seriesData\<lparr>observations := earlier @ later\<rparr>) #
                                 after)\<rparr> #
                      post)\<rparr>) = Inr (xs @ ys)
           \<and> parseJsonResponse f data =
               Inr (xs @ processObservation f tv c b [] entry @ ys)"
proof -
  let ?po = "processObservation f tv c b []"
  let ?ps = "processSeries f cp dp cv dv tv []"
  let ?pd = "processDataSet f cp dp cv dv tv []"
  let ?sd' = "seriesData\<lparr>observations := earlier @ later\<rparr>"
  let ?ds' = "ds\<lparr>series := Some (before @ (seriesKey, ?sd') # after)\<rparr>"
  let ?data' = "data\<lparr>dataSets := Some (pre @ ?ds' # post)\<rparr>"
  let ?xs = "concat (map ?pd pre) @ concat (map ?ps before) @ concat (map ?po earlier)"
  let ?ys = "concat (map ?po later) @ concat (map ?ps after) @ concat (map ?pd post)"
  have s1: "?ps (seriesKey, seriesData) =
              concat (map ?po earlier) @ ?po entry @ concat (map ?po later)"
    using processSeries_resolved [OF key, of tv "[]" seriesData] ob by simp
  have s2: "?ps (seriesKey, ?sd') = concat (map ?po earlier) @ concat (map ?po later)"
    using processSeries_resolved [OF key, of tv "[]" ?sd'] by simp
  have d1: "?pd ds = concat (map ?ps before) @ ?ps (seriesKey, seriesData) @
                     concat (map ?ps after)"
    using se by (simp only: processDataSet_def series_loop option.case append_Nil map_append
                   concat_append list.map concat.simps)
  have d2: "?pd ?ds' = concat (map ?ps before) @ ?ps (seriesKey, ?sd') @
                       concat (map ?ps after)"
    by (simp add: processDataSet_def series_loop del: foldl_append)
  have ne: "pre @ ds # post \<noteq> []" and ne': "pre @ ?ds' # post \<noteq> []" by simp_all
  have ds': "dataSets ?data' = Some (pre @ ?ds' # post)" by simp
  have res': "structureResolves (structureOf ?data') cp dp tp cv dv tv" using res by simp
  have r1: "parseJsonResponse f data = Inr (?xs @ ?po entry @ ?ys)"
    by (simp add: parseJsonResponse_resolved [OF ds ne res] d1 s1)
  have r2: "parseJsonResponse f ?data' = Inr (?xs @ ?ys)"
    by (simp add: parseJsonResponse_resolved [OF ds' ne' res'] d2 s2)
  from r1 r2 show ?thesis by blast
qed

text \<open>
  Claim C5. Take a document whose structure resolves, one of its series whose
  currency \<open>c\<close> and base currency \<open>b\<close> resolved, and one entry (observation key,
  tuple) of that series. The result of \<^verbatim>\<open>parseJsonResponse\<close> on the document is
  the result on the document without that entry, with the contribution of the
  entry inserted at its place, so the other entries of the series (and all other
  series) are processed as if the entry were not there. The contribution is
  empty when the time vocabulary yields no date at the parsed key (no value, no
  identifier, or the empty one), when the tuple is empty, or when its first
  element is \<^verbatim>\<open>null\<close>; otherwise it is the one observation with that date, \<open>c\<close>,
  \<open>b\<close> and that first element as rate. The series as a whole contributes the
  concatenation of the contributions of its entries.
\<close>

theorem observation_is_skipped_or_emitted:
  assumes "structureResolves (structureOf data) cp dp tp cv dv tv"
    and "dataSets data = Some (pre @ ds # post)"
    and "series ds = Some (before @ (seriesKey, seriesData) # after)"
    and "observations seriesData = earlier @ (obsKey, obsValues) # later"
    and "segmentAt f seriesKey cp = Some ci" and "segmentAt f seriesKey dp = Some di"
    and "idAt cv ci = Some c" and "c \<noteq> []"
    and "idAt dv di = Some b" and "b \<noteq> []"
  shows "(\<exists>xs ys.
           parseJsonResponse f
             (data\<lparr>dataSets :=
                Some (pre @
                      ds\<lparr>series :=
                           Some (before @
                                 (seriesKey, seriesData\<lparr>observations := earlier @ later\<rparr>) #
                                 after)\<rparr> #
                      post)\<rparr>) = Inr (xs @ ys)
           \<and> parseJsonResponse f data =
               Inr (xs @
                    (case idAt tv (f obsKey) of
                       None \<Rightarrow> []
                     | Some d \<Rightarrow>
                         if d = [] then []
                         else (case obsValues of
                                 [] \<Rightarrow> []
                               | None # _ \<Rightarrow> []
                               | Some r # _ \<Rightarrow>
                                   [\<lparr> date = d, currency = c, baseCurrency = b, rate = r \<rparr>])) @
                    ys))
         \<and> processSeries f cp dp cv dv tv acc (seriesKey, seriesData) =
             acc @ concat (map (processObservation f tv c b []) (observations seriesData))
         \<and> (\<forall>key vals acc'.
               processObservation f tv c b acc' (key, vals) =
                 acc' @
                 (case idAt tv (f key) of
                    None \<Rightarrow> []
                  | Some d \<Rightarrow>
                      if d = [] then []
                      else (case vals of
                              [] \<Rightarrow> []
                            | None # _ \<Rightarrow> []
                            | Some r # _ \<Rightarrow>
                                [\<lparr> date = d, currency = c, baseCurrency = b, rate = r \<rparr>])))"
proof (intro conjI allI)
  from parseJsonResponse_at_observation [OF assms]
  show "\<exists>xs ys.
           parseJsonResponse f
             (data\<lparr>dataSets :=
                Some (pre @
                      ds\<lparr>series :=
                           Some (before @
                                 (seriesKey, seriesData\<lparr>observations := earlier @ later\<rparr>) #
                                 after)\<rparr> #
                      post)\<rparr>) = Inr (xs @ ys)
           \<and> parseJsonResponse f data =
               Inr (xs @
                    (case idAt tv (f obsKey) of
                       None \<Rightarrow> []
                     | Some d \<Rightarrow>
                         if d = [] then []
                         else (case obsValues of
                                 [] \<Rightarrow> []
                               | None # _ \<Rightarrow> []
                               | Some r # _ \<Rightarrow>
                                   [\<lparr> date = d, currency = c, baseCurrency = b, rate = r \<rparr>])) @
                    ys)"
    by (simp only: processObservation_outcome [of f tv c b "[]"] append_Nil)
next
  show "processSeries f cp dp cv dv tv acc (seriesKey, seriesData) =
          acc @ concat (map (processObservation f tv c b []) (observations seriesData))"
    by (rule processSeries_resolved [OF assms(5-10)])
next
  fix key vals acc'
  show "processObservation f tv c b acc' (key, vals) =
                 acc' @
                 (case idAt tv (f key) of
                    None \<Rightarrow> []
                  | Some d \<Rightarrow>
                      if d = [] then []
                      else (case vals of
                              [] \<Rightarrow> []
                            | None # _ \<Rightarrow> []
                            | Some r # _ \<Rightarrow>
                                [\<lparr> date = d, currency = c, baseCurrency = b, rate = r \<rparr>]))"
    by (rule processObservation_outcome)
qed

theorem observation_is_skipped_or_emitted_witness:
  "malformedSeries ! 4 =
     (''0:0:0:0:0'',
      \<lparr> observations =
          [(''0'', [Some 1.03]), (''1'', [None]), (''9'', [Some 5]), (''x'', [Some 4])] \<rparr>)
   \<and> (\<exists>xs ys.
         parseJsonResponse decimalIndex
           (MALFORMED_ENTRIES_RESPONSE
              \<lparr>dataSets :=
                 Some ([\<lparr> series = None \<rparr>] @
                       \<lparr> series = Some malformedSeries \<rparr>
                         \<lparr>series :=
                            Some (take 4 malformedSeries @
                                  (''0:0:0:0:0'',
                                   \<lparr> observations =
                                       [(''0'', [Some 1.03]), (''1'', [None]), (''9'', [Some 5]),
                                        (''x'', [Some 4])] \<rparr>
                                     \<lparr>observations :=
                                        [] @ [(''1'', [None]), (''9'', [Some 5]),
                                              (''x'', [Some 4])]\<rparr>) #
                                  drop 5 malformedSeries)\<rparr> #
                       [])\<rparr>) = Inr (xs @ ys)
         \<and> parseJsonResponse decimalIndex MALFORMED_ENTRIES_RESPONSE =
             Inr (xs @
                  [\<lparr> date = ''2025-01-15'', currency = ''USD'', baseCurrency = ''EUR'',
                     rate = 1.03 \<rparr>] @
                  ys))
   \<and> (\<exists>xs ys.
         parseJsonResponse decimalIndex
           (MALFORMED_ENTRIES_RESPONSE
              \<lparr>dataSets :=
                 Some ([\<lparr> series = None \<rparr>] @
                       \<lparr> series = Some malformedSeries \<rparr>
                         \<lparr>series :=
                            Some (take 4 malformedSeries @
                                  (''0:0:0:0:0'',
                                   \<lparr> observations =
                                       [(''0'', [Some 1.03]), (''1'', [None]), (''9'', [Some 5]),
                                        (''x'', [Some 4])] \<rparr>
                                     \<lparr>observations :=
                                        [(''0'', [Some 1.03])] @
                                        [(''9'', [Some 5]), (''x'', [Some 4])]\<rparr>) #
                                  drop 5 malformedSeries)\<rparr> #
                       [])\<rparr>) = Inr (xs @ ys)
         \<and> parseJsonResponse decimalIndex MALFORMED_ENTRIES_RESPONSE = Inr (xs @ [] @ ys))"
proof -
  let ?cv = "[\<lparr> valueId = Some ''USD'' \<rparr>, \<lparr> valueId = None \<rparr>]"
  let ?dv = "[\<lparr> valueId = Some ''EUR'' \<rparr>]"
  let ?sd = "\<lparr> observations =
               [(''0'', [Some (1.03 :: real)]), (''1'', [None]), (''9'', [Some 5]),
                (''x'', [Some 4])] \<rparr>"
  have nth: "malformedSeries ! 4 = (''0:0:0:0:0'', ?sd)"
    by (simp add: malformedSeries_def)
  have res: "structureResolves (structureOf MALFORMED_ENTRIES_RESPONSE) 1 2 0 ?cv ?dv
               fixtureTimeValues"
    using fixture_pair_resolves by (simp add: MALFORMED_ENTRIES_RESPONSE_def)
  have ds: "dataSets MALFORMED_ENTRIES_RESPONSE =
              Some ([\<lparr> series = None \<rparr>] @ \<lparr> series = Some malformedSeries \<rparr> # [])"
    by (simp add: MALFORMED_ENTRIES_RESPONSE_def)
  have se: "series \<lparr> series = Some malformedSeries \<rparr> =
              Some (take 4 malformedSeries @ (''0:0:0:0:0'', ?sd) # drop 5 malformedSeries)"
    by (simp add: malformedSeries_def)
  have first: "observations ?sd =
                 [] @ (''0'', [Some 1.03]) # [(''1'', [None]), (''9'', [Some 5]), (''x'', [Some 4])]"
    and second: "observations ?sd =
                 [(''0'', [Some 1.03])] @ (''1'', [None]) # [(''9'', [Some 5]), (''x'', [Some 4])]"
    by simp_all
  have c: "segmentAt decimalIndex ''0:0:0:0:0'' 1 = Some (Some 0)"
    and d: "segmentAt decimalIndex ''0:0:0:0:0'' 2 = Some (Some 0)"
    by (simp_all add: segmentAt_def)
  have ci: "idAt ?cv (Some 0) = Some ''USD''" and di: "idAt ?dv (Some 0) = Some ''EUR''"
    by (simp_all add: idAt_def arrayGetNum_def)
  have ne: "''USD'' \<noteq> []" "''EUR'' \<noteq> []" by simp_all
  have emitted:
    "(case idAt fixtureTimeValues (decimalIndex ''0'') of
        None \<Rightarrow> []
      | Some d \<Rightarrow>
          if d = [] then []
          else (case [Some (1.03 :: real)] of
                  [] \<Rightarrow> []
                | None # _ \<Rightarrow> []
                | Some r # _ \<Rightarrow>
                    [\<lparr> date = d, currency = ''USD'', baseCurrency = ''EUR'', rate = r \<rparr>])) =
     [\<lparr> date = ''2025-01-15'', currency = ''USD'', baseCurrency = ''EUR'', rate = 1.03 \<rparr>]"
    by (simp add: idAt_def arrayGetNum_def fixtureTimeValues_def)
  have skipped:
    "(case idAt fixtureTimeValues (decimalIndex ''1'') of
        None \<Rightarrow> []
      | Some d \<Rightarrow>
          if d = [] then []
          else (case [None :: real option] of
                  [] \<Rightarrow> []
                | None # _ \<Rightarrow> []
                | Some r # _ \<Rightarrow>
                    [\<lparr> date = d, currency = ''USD'', baseCurrency = ''EUR'', rate = r \<rparr>])) = []"
    by (simp add: idAt_def arrayGetNum_def fixtureTimeValues_def)
  note one = observation_is_skipped_or_emitted
      [OF res ds se first c d ci ne(1) di ne(2), THEN conjunct1, unfolded emitted]
  note two = observation_is_skipped_or_emitted
      [OF res ds se second c d ci ne(1) di ne(2), THEN conjunct1, unfolded skipped]
  from nth one two show ?thesis by (intro conjI)
qed

section \<open>The text parser\<close>

text \<open>
  \<^verbatim>\<open>parseSdmxJson\<close> adds one thing to the runtime's JSON parser: a text that the
  parser rejects gives the parse error, and any other text gives the parser's
  value unchanged. Which texts the parser accepts, and whether it maps the
  serialisation of a document back to that document, is decided by the runtime's
  \<^verbatim>\<open>JSON.parse\<close> and \<^verbatim>\<open>JSON.stringify\<close> and their reading and printing of
  IEEE-754 doubles, not by code of the repository.
\<close>

lemma parseSdmxJson_result:
  "(jsonParse raw = None \<longrightarrow>
      parseSdmxJson jsonParse raw = Inl (EcbParseError ''Failed to parse ECB JSON response.''))
   \<and> (\<forall>parsed. (parseSdmxJson jsonParse raw = Inr parsed) = (jsonParse raw = Some parsed))"
  by (auto simp: parseSdmxJson_def split: option.splits)

section \<open>The client facade\<close>

lemma arrayGet_0: "arrayGet xs 0 = (case xs of [] \<Rightarrow> None | x # _ \<Rightarrow> Some x)"
  by (cases xs) simp_all

lemma deriveBase_cascade:
  "deriveBase client obs query =
     (case obs of
        first # _ \<Rightarrow> baseCurrency first
      | [] \<Rightarrow> (case queryBaseCurrency query of
                 Some b \<Rightarrow> b
               | None \<Rightarrow> clientBaseCurrency client))"
  by (simp add: deriveBase_def arrayGet_0 split: list.splits)

lemma deriveBase_resolveQuery:
  "deriveBase client obs (resolveQuery client query) = deriveBase client obs query"
  by (auto simp: deriveBase_def resolveQuery_def split: option.splits)

lemma fetchAndParse_nonempty:
  "fetchAndParse tn jp client query = Inr obs \<Longrightarrow> obs \<noteq> []"
  by (auto simp: fetchAndParse_def split: sum.splits if_splits)

lemma getSingleCurrencyRates_Inr:
  assumes "getSingleCurrencyRates tn jp client query = Inr result"
  shows "\<exists>obs. validateQuery (resolveQuery client query) = Inr ()
           \<and> fetchAndParse tn jp client (resolveQuery client query) = Inr obs
           \<and> result = \<lparr> base = deriveBase client obs (resolveQuery client query),
                         targetCurrency = arrayGet (currencies (resolveQuery client query)) 0,
                         rates = foldl (\<lambda>m ob. mapSet m (date ob) (rate ob)) [] obs \<rparr>"
  using assms by (auto simp: getSingleCurrencyRates_def Let_def split: sum.splits)

lemma getRates_Inr:
  assumes "getRates tn jp client query = Inr result"
  shows "\<exists>obs. validateQuery (resolveQuery client query) = Inr ()
           \<and> fetchAndParse tn jp client (resolveQuery client query) = Inr obs
           \<and> result = transformToMultiCurrencyResult client obs (resolveQuery client query)"
  using assms by (auto simp: getRates_def Let_def split: sum.splits)

text \<open>
  Claim C7. In the result of \<^verbatim>\<open>getSingleCurrencyRates\<close>, in the result of
  \<^verbatim>\<open>getRates\<close> and in the result of \<^verbatim>\<open>transformToMultiCurrencyResult\<close> on any
  list of observations, the base is the \<^verbatim>\<open>baseCurrency\<close> of the first observation
  when there is one, otherwise the query's \<^verbatim>\<open>baseCurrency\<close> when the query
  specifies one, otherwise the client's configured base currency, which is
  \<^verbatim>\<open>EUR\<close> unless the configuration gives another.
\<close>

theorem base_follows_first_observation_then_query_then_client:
  "(\<forall>result. getSingleCurrencyRates tn jp client query = Inr result \<longrightarrow>
      (\<exists>obs. fetchAndParse tn jp client (resolveQuery client query) = Inr obs
         \<and> base result =
             (case obs of
                first # _ \<Rightarrow> baseCurrency first
              | [] \<Rightarrow> (case queryBaseCurrency query of
                         Some b \<Rightarrow> b
                       | None \<Rightarrow> clientBaseCurrency client))))
   \<and> (\<forall>result. getRates tn jp client query = Inr result \<longrightarrow>
      (\<exists>obs. fetchAndParse tn jp client (resolveQuery client query) = Inr obs
         \<and> multiBase result =
             (case obs of
                first # _ \<Rightarrow> baseCurrency first
              | [] \<Rightarrow> (case queryBaseCurrency query of
                         Some b \<Rightarrow> b
                       | None \<Rightarrow> clientBaseCurrency client))))
   \<and> multiBase (transformToMultiCurrencyResult client observed query) =
        (case observed of
           first # _ \<Rightarrow> baseCurrency first
         | [] \<Rightarrow> (case queryBaseCurrency query of
                    Some b \<Rightarrow> b
                  | None \<Rightarrow> clientBaseCurrency client))
   \<and> clientBaseCurrency (newEcbClient config fetch) =
        (case configBaseCurrency config of Some b \<Rightarrow> b | None \<Rightarrow> ''EUR'')"
proof (intro conjI allI impI)
  fix result :: "'a ExchangeRateResult"
  assume "getSingleCurrencyRates tn jp client query = Inr result"
  from getSingleCurrencyRates_Inr [OF this]
  obtain obs where "fetchAndParse tn jp client (resolveQuery client query) = Inr obs"
    and "base result = deriveBase client obs query"
    by (auto simp: deriveBase_resolveQuery)
  then show "\<exists>obs. fetchAndParse tn jp client (resolveQuery client query) = Inr obs
         \<and> base result =
             (case obs of
                first # _ \<Rightarrow> baseCurrency first
              | [] \<Rightarrow> (case queryBaseCurrency query of
                         Some b \<Rightarrow> b
                       | None \<Rightarrow> clientBaseCurrency client))"
    by (auto simp: deriveBase_cascade)
next
  fix result :: "'a ExchangeRatesResult"
  assume "getRates tn jp client query = Inr result"
  from getRates_Inr [OF this]
  obtain obs where "fetchAndParse tn jp client (resolveQuery client query) = Inr obs"
    and "multiBase result = deriveBase client obs query"
    by (auto simp: transformToMultiCurrencyResult_def deriveBase_resolveQuery)
  then show "\<exists>obs. fetchAndParse tn jp client (resolveQuery client query) = Inr obs
         \<and> multiBase result =
             (case obs of
                first # _ \<Rightarrow> baseCurrency first
              | [] \<Rightarrow> (case queryBaseCurrency query of
                         Some b \<Rightarrow> b
                       | None \<Rightarrow> clientBaseCurrency client))"
    by (auto simp: deriveBase_cascade)
next
  show "multiBase (transformToMultiCurrencyResult client observed query) =
        (case observed of
           first # _ \<Rightarrow> baseCurrency first
         | [] \<Rightarrow> (case queryBaseCurrency query of
                    Some b \<Rightarrow> b
                  | None \<Rightarrow> clientBaseCurrency client))"
    by (simp add: transformToMultiCurrencyResult_def deriveBase_cascade)
next
  show "clientBaseCurrency (newEcbClient config fetch) =
        (case configBaseCurrency config of Some b \<Rightarrow> b | None \<Rightarrow> ''EUR'')"
    by (simp add: newEcbClient_def DEFAULT_BASE_CURRENCY_def split: option.splits)
qed


subsection \<open>Evaluation of the client on the fixtures\<close>

lemma validate_usd_day:
  "validateQuery \<lparr> currencies = [''USD''], startDate = ''2025-01-16'',
                    endDate = Some ''2025-01-16'', frequency = None,
                    queryBaseCurrency = Some ''EUR'' \<rparr> = Inr ()"
  by (simp add: validateQuery_def CURRENCY_REGEX_test_def ISO_DATE_REGEX_test_def
        isUpperAZ_def isDigit09_def)

lemma single_fixture_decimal:
  "parseJsonResponse decimalIndex SINGLE_CURRENCY_RESPONSE =
     Inr [\<lparr> date = ''2025-01-15'', currency = ''USD'', baseCurrency = ''EUR'', rate = 1.03 \<rparr>,
          \<lparr> date = ''2025-01-16'', currency = ''USD'', baseCurrency = ''EUR'', rate = 1.0303 \<rparr>]"
  by (rule single_fixture) simp_all

lemma getRate_single:
  "getRate decimalIndex jsonParseFixtures
     (newEcbClient \<lparr> configBaseCurrency = None \<rparr> (mockTransport ''single''))
     ''USD'' ''2025-01-16'' =
   Inr \<lparr> base = ''EUR'', targetCurrency = Some ''USD'',
         rates = [(''2025-01-15'', 1.03), (''2025-01-16'', 1.0303)] \<rparr>"
  by (simp add: getRate_def getSingleCurrencyRates_def resolveQuery_def newEcbClient_def
        DEFAULT_BASE_CURRENCY_def validate_usd_day fetchAndParse_def mockTransport_def
        parseSdmxJson_def jsonParseFixtures_def single_fixture_decimal deriveBase_def)

lemma getRate_empty:
  "getRate decimalIndex jsonParseFixtures
     (newEcbClient \<lparr> configBaseCurrency = None \<rparr> (mockTransport ''empty''))
     ''USD'' ''2025-01-16'' =
   Inl (EcbNoDataError [''USD''] ''2025-01-16'' (Some ''2025-01-16''))"
  by (simp add: getRate_def getSingleCurrencyRates_def resolveQuery_def newEcbClient_def
        DEFAULT_BASE_CURRENCY_def validate_usd_day fetchAndParse_def mockTransport_def
        parseSdmxJson_def jsonParseFixtures_def parseJsonResponse_def)

lemma validate_two_currencies:
  "validateQuery \<lparr> currencies = [''USD'', ''GBP''], startDate = ''2025-01-15'',
                    endDate = Some ''2025-01-16'', frequency = None,
                    queryBaseCurrency = Some ''EUR'' \<rparr> = Inr ()"
  by (simp add: validateQuery_def CURRENCY_REGEX_test_def ISO_DATE_REGEX_test_def
        isUpperAZ_def isDigit09_def)

lemma multi_fixture_decimal:
  "parseJsonResponse decimalIndex MULTI_CURRENCY_RESPONSE =
     Inr [\<lparr> date = ''2025-01-15'', currency = ''USD'', baseCurrency = ''EUR'', rate = 1.03 \<rparr>,
          \<lparr> date = ''2025-01-16'', currency = ''USD'', baseCurrency = ''EUR'', rate = 1.0303 \<rparr>,
          \<lparr> date = ''2025-01-15'', currency = ''GBP'', baseCurrency = ''EUR'', rate = 0.8442 \<rparr>,
          \<lparr> date = ''2025-01-16'', currency = ''GBP'', baseCurrency = ''EUR'', rate = 0.8451 \<rparr>]"
  by (rule multi_fixture) simp_all

lemma record_enumeration_order:
  "recordSet (recordSet (recordSet (recordSet [] ''USD'' (1 :: real)) ''10'' 2) ''9'' 3) ''USD'' 4 =
     [(''9'', 3), (''10'', 2), (''USD'', 4)]"
  "recordSet (recordSet [] ''GBP'' (1 :: real)) ''__proto__'' 2 = [(''GBP'', 1)]"
  "recordSet (recordSet [] ''GBP'' (1 :: real)) ''01'' 2 = [(''GBP'', 1), (''01'', 2)]"
  by (simp_all add: recordSet_def enumeratedBefore_def arrayIndex_def digitValue_def)

lemma getRates_multi:
  "getRates decimalIndex jsonParseFixtures
     (newEcbClient \<lparr> configBaseCurrency = None \<rparr> (mockTransport ''multi''))
     \<lparr> currencies = [''USD'', ''GBP''], startDate = ''2025-01-15'',
       endDate = Some ''2025-01-16'', frequency = None, queryBaseCurrency = None \<rparr> =
   Inr \<lparr> multiBase = ''EUR'', multiCurrencies = [''USD'', ''GBP''],
         multiRates = [(''2025-01-15'', [(''USD'', 1.03), (''GBP'', 0.8442)]),
                       (''2025-01-16'', [(''USD'', 1.0303), (''GBP'', 0.8451)])] \<rparr>"
  by (simp add: getRates_def resolveQuery_def newEcbClient_def
        DEFAULT_BASE_CURRENCY_def validate_two_currencies fetchAndParse_def mockTransport_def
        parseSdmxJson_def jsonParseFixtures_def multi_fixture_decimal deriveBase_def
        transformToMultiCurrencyResult_def recordSet_def enumeratedBefore_def arrayIndex_def
        digitValue_def)

theorem base_follows_first_observation_then_query_then_client_witness:
  "base \<lparr> base = ''EUR'', targetCurrency = Some ''USD'',
          rates = [(''2025-01-15'', 1.03 :: real), (''2025-01-16'', 1.0303)] \<rparr> = ''EUR''
   \<and> getSingleCurrencyRates decimalIndex jsonParseFixtures
        (newEcbClient \<lparr> configBaseCurrency = None \<rparr> (mockTransport ''single''))
        \<lparr> currencies = [''USD''], startDate = ''2025-01-16'', endDate = Some ''2025-01-16'',
          frequency = None, queryBaseCurrency = None \<rparr> =
       Inr \<lparr> base = ''EUR'', targetCurrency = Some ''USD'',
             rates = [(''2025-01-15'', 1.03), (''2025-01-16'', 1.0303)] \<rparr>
   \<and> multiBase (transformToMultiCurrencyResult
        (newEcbClient \<lparr> configBaseCurrency = None \<rparr> (mockTransport ''single''))
        ([] :: real ExchangeRateObservation list)
        \<lparr> currencies = [''USD''], startDate = ''2025-01-16'', endDate = None,
          frequency = None, queryBaseCurrency = Some ''GBP'' \<rparr>) = ''GBP''
   \<and> multiBase (transformToMultiCurrencyResult
        (newEcbClient \<lparr> configBaseCurrency = None \<rparr> (mockTransport ''single''))
        ([] :: real ExchangeRateObservation list)
        \<lparr> currencies = [''USD''], startDate = ''2025-01-16'', endDate = None,
          frequency = None, queryBaseCurrency = None \<rparr>) = ''EUR''
   \<and> getRates decimalIndex jsonParseFixtures
        (newEcbClient \<lparr> configBaseCurrency = None \<rparr> (mockTransport ''multi''))
        \<lparr> currencies = [''USD'', ''GBP''], startDate = ''2025-01-15'',
          endDate = Some ''2025-01-16'', frequency = None, queryBaseCurrency = None \<rparr> =
       Inr \<lparr> multiBase = ''EUR'', multiCurrencies = [''USD'', ''GBP''],
             multiRates = [(''2025-01-15'', [(''USD'', 1.03), (''GBP'', 0.8442)]),
                           (''2025-01-16'', [(''USD'', 1.0303), (''GBP'', 0.8451)])] \<rparr>
   \<and> clientBaseCurrency (newEcbClient \<lparr> configBaseCurrency = Some ''USD'' \<rparr>
                             (mockTransport ''single'')) = ''USD''"
proof -
  let ?client = "newEcbClient \<lparr> configBaseCurrency = None \<rparr> (mockTransport ''single'')"
  let ?q = "\<lparr> currencies = [''USD''], startDate = ''2025-01-16'', endDate = Some ''2025-01-16'',
              frequency = None, queryBaseCurrency = None \<rparr>"
  let ?result = "\<lparr> base = ''EUR'', targetCurrency = Some ''USD'',
                   rates = [(''2025-01-15'', 1.03 :: real), (''2025-01-16'', 1.0303)] \<rparr>"
  have run: "getSingleCurrencyRates decimalIndex jsonParseFixtures ?client ?q = Inr ?result"
    using getRate_single by (simp add: getRate_def)
  note inst = base_follows_first_observation_then_query_then_client
  from inst [of decimalIndex jsonParseFixtures ?client ?q "[]" "\<lparr> configBaseCurrency = None \<rparr>"
               "mockTransport ''single''"] run
  have one: "base ?result = ''EUR''" by simp
  from inst [of decimalIndex jsonParseFixtures ?client
               "\<lparr> currencies = [''USD''], startDate = ''2025-01-16'', endDate = None,
                  frequency = None, queryBaseCurrency = Some ''GBP'' \<rparr>"
               "[] :: real ExchangeRateObservation list"]
  have two: "multiBase (transformToMultiCurrencyResult ?client
        ([] :: real ExchangeRateObservation list)
        \<lparr> currencies = [''USD''], startDate = ''2025-01-16'', endDate = None,
          frequency = None, queryBaseCurrency = Some ''GBP'' \<rparr>) = ''GBP''"
    by simp
  from inst [of decimalIndex jsonParseFixtures ?client
               "\<lparr> currencies = [''USD''], startDate = ''2025-01-16'', endDate = None,
                  frequency = None, queryBaseCurrency = None \<rparr>"
               "[] :: real ExchangeRateObservation list" "\<lparr> configBaseCurrency = None \<rparr>"
               "mockTransport ''single''"]
  have three: "multiBase (transformToMultiCurrencyResult ?client
        ([] :: real ExchangeRateObservation list)
        \<lparr> currencies = [''USD''], startDate = ''2025-01-16'', endDate = None,
          frequency = None, queryBaseCurrency = None \<rparr>) = ''EUR''"
    by simp
  from inst [of decimalIndex jsonParseFixtures
               "newEcbClient \<lparr> configBaseCurrency = None \<rparr> (mockTransport ''multi'')"
               "\<lparr> currencies = [''USD'', ''GBP''], startDate = ''2025-01-15'',
                  endDate = Some ''2025-01-16'', frequency = None, queryBaseCurrency = None \<rparr>"
               "[]" "\<lparr> configBaseCurrency = Some ''USD'' \<rparr>" "mockTransport ''single''",
             THEN conjunct2, THEN conjunct2, THEN conjunct2]
  have four: "clientBaseCurrency (newEcbClient \<lparr> configBaseCurrency = Some ''USD'' \<rparr>
                                    (mockTransport ''single'')) = ''USD''"
    by simp
  from one run two three getRates_multi four show ?thesis by (intro conjI)
qed


subsection \<open>Conversion\<close>

lemma mapSet_nonempty: "mapSet m k v \<noteq> []"
  by (cases m) (auto split: if_splits)

lemma mapSet_first_key: "m \<noteq> [] \<Longrightarrow> fst (hd (mapSet m k v)) = fst (hd m)"
  by (cases m) (auto split: if_splits)

lemma rates_loop_first_key:
  "m \<noteq> [] \<Longrightarrow>
     foldl (\<lambda>m ob. mapSet m (date ob) (rate ob)) m obs \<noteq> []
     \<and> fst (hd (foldl (\<lambda>m ob. mapSet m (date ob) (rate ob)) m obs)) = fst (hd m)"
proof (induction obs arbitrary: m)
  case Nil
  then show ?case by simp
next
  case (Cons ob obs)
  from Cons.IH [of "mapSet m (date ob) (rate ob)"] Cons.prems
  show ?case by (simp add: mapSet_nonempty mapSet_first_key)
qed

lemma rates_first_entry:
  assumes "obs \<noteq> []"
  shows "\<exists>r rest. foldl (\<lambda>m ob. mapSet m (date ob) (rate ob)) [] obs = (date (hd obs), r) # rest"
proof -
  from assms obtain first others where obs: "obs = first # others" by (cases obs) auto
  let ?m = "foldl (\<lambda>m ob. mapSet m (date ob) (rate ob)) [(date first, rate first)] others"
  from rates_loop_first_key [of "[(date first, rate first)]" others]
  have "?m \<noteq> []" and "fst (hd ?m) = date first" by simp_all
  then obtain r rest where "?m = (date first, r) # rest"
    by (cases ?m) auto
  with obs show ?thesis by simp
qed

lemma getRate_Inr:
  assumes "getRate tn jp client cur day = Inr result"
  shows "\<exists>obs r rest.
           fetchAndParse tn jp client
             \<lparr> currencies = [cur], startDate = day, endDate = Some day, frequency = None,
               queryBaseCurrency = Some (clientBaseCurrency client) \<rparr> = Inr obs
           \<and> obs \<noteq> [] \<and> rates result = (date (hd obs), r) # rest"
proof -
  from getSingleCurrencyRates_Inr [OF assms [unfolded getRate_def]]
  obtain obs where f: "fetchAndParse tn jp client
             (resolveQuery client
               \<lparr> currencies = [cur], startDate = day, endDate = Some day, frequency = None,
                 queryBaseCurrency = None \<rparr>) = Inr obs"
    and r: "rates result = foldl (\<lambda>m ob. mapSet m (date ob) (rate ob)) [] obs"
    by auto
  from fetchAndParse_nonempty [OF f] have ne: "obs \<noteq> []" .
  from rates_first_entry [OF ne] r f ne show ?thesis
    by (auto simp: resolveQuery_def)
qed

lemma getRate_no_data:
  assumes quiet: "\<forall>q cs s e. transport client q \<noteq> Inl (EcbNoDataError cs s e)"
  shows "(getRate tn jp client cur day = Inl (EcbNoDataError cs s e)) =
         (validateQuery \<lparr> currencies = [cur], startDate = day, endDate = Some day,
                          frequency = None,
                          queryBaseCurrency = Some (clientBaseCurrency client) \<rparr> = Inr ()
          \<and> (\<exists>raw json.
                transport client
                  \<lparr> currencies = [cur], startDate = day, endDate = Some day, frequency = None,
                    queryBaseCurrency = Some (clientBaseCurrency client) \<rparr> = Inr raw
                \<and> jp raw = Some json \<and> parseJsonResponse tn json = Inr [])
          \<and> cs = [cur] \<and> s = day \<and> e = Some day)"
proof -
  let ?q = "\<lparr> currencies = [cur], startDate = day, endDate = Some day, frequency = None,
              queryBaseCurrency = Some (clientBaseCurrency client) \<rparr>"
  have v: "\<And>x. validateQuery ?q \<noteq> Inl (EcbNoDataError cs s e)"
    by (cases "validateCurrencies [cur]")
       (auto simp: validateQuery_def split: if_splits)
  have p: "\<And>json. parseJsonResponse tn json \<noteq> Inl (EcbNoDataError cs s e)"
    using parseJsonResponse_error_kind by fastforce
  have t: "transport client ?q \<noteq> Inl (EcbNoDataError cs s e)"
    using quiet by blast
  show ?thesis
    using v p t
    by (cases "validateQuery ?q"; cases "transport client ?q")
       (auto simp: getRate_def getSingleCurrencyRates_def resolveQuery_def fetchAndParse_def
          parseSdmxJson_def Let_def
        split: sum.splits option.splits if_splits)
qed

text \<open>
  The outcomes of \<^verbatim>\<open>convert\<close>. It returns \<^verbatim>\<open>null\<close> exactly when the rate lookup
  fails with \<^verbatim>\<open>EcbNoDataError\<close>; every other failure of the lookup is the failure
  of \<^verbatim>\<open>convert\<close>; and when the lookup succeeds, the list of observations is
  non-empty, the date and rate are those of the first entry of the result's
  \<^verbatim>\<open>rates\<close> map, whose date is the date of the first observation of the response
  (not the requested day), and the result is \<^verbatim>\<open>{amount, rate, date, currency}\<close> with
  the amount computed in doubles as \<^verbatim>\<open>Math.round(amount * rate * 100) / 100\<close>. When
  the transport itself never raises \<^verbatim>\<open>EcbNoDataError\<close>, the \<^verbatim>\<open>null\<close> result means
  exactly that the query was valid, the response parsed, and the decoder returned
  the empty list.
\<close>

lemma convert_outcomes:
  "((convert tn jp client amt cur day = Inr None) =
      (\<exists>cs s e. getRate tn jp client cur day = Inl (EcbNoDataError cs s e)))
   \<and> (\<forall>err. getRate tn jp client cur day = Inl err
           \<and> (\<forall>cs s e. err \<noteq> EcbNoDataError cs s e) \<longrightarrow>
         convert tn jp client amt cur day = Inl err)
   \<and> (\<forall>result. getRate tn jp client cur day = Inr result \<longrightarrow>
         (\<exists>obs actualDate r rest.
            fetchAndParse tn jp client
              \<lparr> currencies = [cur], startDate = day, endDate = Some day, frequency = None,
                queryBaseCurrency = Some (clientBaseCurrency client) \<rparr> = Inr obs
            \<and> obs \<noteq> [] \<and> actualDate = date (hd obs)
            \<and> rates result = (actualDate, r) # rest
            \<and> convert tn jp client amt cur day =
                Inr (Some \<lparr> amount = jsDivide (Math_round (jsMultiply (jsMultiply amt r) 100)) 100,
                            conversionRate = r,
                            conversionDate = actualDate,
                            conversionCurrency = cur \<rparr>)))
   \<and> ((\<forall>q cs s e. transport client q \<noteq> Inl (EcbNoDataError cs s e)) \<longrightarrow>
        (convert tn jp client amt cur day = Inr None) =
          (validateQuery \<lparr> currencies = [cur], startDate = day, endDate = Some day,
                           frequency = None,
                           queryBaseCurrency = Some (clientBaseCurrency client) \<rparr> = Inr ()
           \<and> (\<exists>raw json.
                 transport client
                   \<lparr> currencies = [cur], startDate = day, endDate = Some day, frequency = None,
                     queryBaseCurrency = Some (clientBaseCurrency client) \<rparr> = Inr raw
                 \<and> jp raw = Some json \<and> parseJsonResponse tn json = Inr [])))"
proof -
  have null_iff: "(convert tn jp client amt cur day = Inr None) =
      (\<exists>cs s e. getRate tn jp client cur day = Inl (EcbNoDataError cs s e))"
  proof (cases "getRate tn jp client cur day")
    case (Inl err)
    then show ?thesis by (cases err) (simp_all add: convert_def)
  next
    case (Inr result)
    from getRate_Inr [OF Inr] obtain x r rest where "rates result = (x, r) # rest" by blast
    with Inr show ?thesis by (simp add: convert_def)
  qed
  have propagate: "\<forall>err. getRate tn jp client cur day = Inl err
           \<and> (\<forall>cs s e. err \<noteq> EcbNoDataError cs s e) \<longrightarrow>
         convert tn jp client amt cur day = Inl err"
  proof (intro allI impI)
    fix err
    assume "getRate tn jp client cur day = Inl err \<and> (\<forall>cs s e. err \<noteq> EcbNoDataError cs s e)"
    then show "convert tn jp client amt cur day = Inl err"
      by (cases err) (simp_all add: convert_def)
  qed
  have success: "\<forall>result. getRate tn jp client cur day = Inr result \<longrightarrow>
         (\<exists>obs actualDate r rest.
            fetchAndParse tn jp client
              \<lparr> currencies = [cur], startDate = day, endDate = Some day, frequency = None,
                queryBaseCurrency = Some (clientBaseCurrency client) \<rparr> = Inr obs
            \<and> obs \<noteq> [] \<and> actualDate = date (hd obs)
            \<and> rates result = (actualDate, r) # rest
            \<and> convert tn jp client amt cur day =
                Inr (Some \<lparr> amount = jsDivide (Math_round (jsMultiply (jsMultiply amt r) 100)) 100,
                            conversionRate = r,
                            conversionDate = actualDate,
                            conversionCurrency = cur \<rparr>))"
  proof (intro allI impI)
    fix result
    assume run: "getRate tn jp client cur day = Inr result"
    from getRate_Inr [OF run] obtain obs r rest where
      f: "fetchAndParse tn jp client
              \<lparr> currencies = [cur], startDate = day, endDate = Some day, frequency = None,
                queryBaseCurrency = Some (clientBaseCurrency client) \<rparr> = Inr obs"
      and ne: "obs \<noteq> []" and first: "rates result = (date (hd obs), r) # rest"
      by blast
    from run first
    have "convert tn jp client amt cur day =
            Inr (Some \<lparr> amount = jsDivide (Math_round (jsMultiply (jsMultiply amt r) 100)) 100,
                        conversionRate = r,
                        conversionDate = date (hd obs),
                        conversionCurrency = cur \<rparr>)"
      by (simp add: convert_def)
    with f ne first
    show "\<exists>obs actualDate r rest.
            fetchAndParse tn jp client
              \<lparr> currencies = [cur], startDate = day, endDate = Some day, frequency = None,
                queryBaseCurrency = Some (clientBaseCurrency client) \<rparr> = Inr obs
            \<and> obs \<noteq> [] \<and> actualDate = date (hd obs)
            \<and> rates result = (actualDate, r) # rest
            \<and> convert tn jp client amt cur day =
                Inr (Some \<lparr> amount = jsDivide (Math_round (jsMultiply (jsMultiply amt r) 100)) 100,
                            conversionRate = r,
                            conversionDate = actualDate,
                            conversionCurrency = cur \<rparr>)"
      by blast
  qed
  have empty: "(\<forall>q cs s e. transport client q \<noteq> Inl (EcbNoDataError cs s e)) \<longrightarrow>
        (convert tn jp client amt cur day = Inr None) =
          (validateQuery \<lparr> currencies = [cur], startDate = day, endDate = Some day,
                           frequency = None,
                           queryBaseCurrency = Some (clientBaseCurrency client) \<rparr> = Inr ()
           \<and> (\<exists>raw json.
                 transport client
                   \<lparr> currencies = [cur], startDate = day, endDate = Some day, frequency = None,
                     queryBaseCurrency = Some (clientBaseCurrency client) \<rparr> = Inr raw
                 \<and> jp raw = Some json \<and> parseJsonResponse tn json = Inr []))"
  proof
    assume quiet: "\<forall>q cs s e. transport client q \<noteq> Inl (EcbNoDataError cs s e)"
    show "(convert tn jp client amt cur day = Inr None) =
          (validateQuery \<lparr> currencies = [cur], startDate = day, endDate = Some day,
                           frequency = None,
                           queryBaseCurrency = Some (clientBaseCurrency client) \<rparr> = Inr ()
           \<and> (\<exists>raw json.
                 transport client
                   \<lparr> currencies = [cur], startDate = day, endDate = Some day, frequency = None,
                     queryBaseCurrency = Some (clientBaseCurrency client) \<rparr> = Inr raw
                 \<and> jp raw = Some json \<and> parseJsonResponse tn json = Inr []))"
      unfolding null_iff getRate_no_data [OF quiet] by blast
  qed
  from null_iff propagate success empty show ?thesis by blast
qed


subsection \<open>Rounding in doubles\<close>

lemma ulpSearch_eq:
  assumes "e0 \<le> e" and "e = e0 \<or> 2 powi (e + 52) \<le> \<bar>x\<bar>" and "\<bar>x\<bar> < 2 powi (e + 53)"
    and "nat (e - e0) \<le> fuel"
  shows "ulpSearch fuel e0 x = e"
  using assms
proof (induction fuel arbitrary: e0)
  case 0
  then show ?case by simp
next
  case (Suc fuel)
  show ?case
  proof (cases "\<bar>x\<bar> < 2 powi (e0 + 53)")
    case True
    have "e = e0"
    proof (rule ccontr)
      assume ne: "e \<noteq> e0"
      with Suc.prems have le: "e0 + 53 \<le> e + 52" and low: "2 powi (e + 52) \<le> \<bar>x\<bar>" by auto
      have "(2 :: real) powi (e0 + 53) \<le> 2 powi (e + 52)"
        using le by (intro power_int_increasing) auto
      with low True show False by linarith
    qed
    with True show ?thesis by simp
  next
    case False
    with Suc.prems(3) have ne: "e \<noteq> e0" by auto
    with Suc.prems have "ulpSearch fuel (e0 + 1) x = e"
      by (intro Suc.IH) auto
    with False show ?thesis by simp
  qed
qed

text \<open>
  Rounding a real in the binade of spacing \<open>2\<^sup>e\<close>: the nearest multiple of \<open>2\<^sup>e\<close>.
\<close>

lemma roundToDouble_eq:
  assumes "- 1074 \<le> e" and "e \<le> 971"
    and "e = - 1074 \<or> 2 powi (e + 52) \<le> \<bar>x\<bar>" and "\<bar>x\<bar> < 2 powi (e + 53)"
    and "roundHalfEven (x / 2 powi e) = k"
  shows "roundToDouble x = of_int k * 2 powi e"
proof -
  have "ulpExponent x = e"
    unfolding ulpExponent_def using assms(1-4) by (intro ulpSearch_eq) auto
  with assms(5) show ?thesis by (simp add: roundToDouble_def)
qed

lemma rate_double: "roundToDouble 1.03 = 4638707616191611 / 2 ^ 52"
proof -
  have "roundHalfEven (1.03 / 2 powi (- 52)) = 4638707616191611"
    by (simp add: roundHalfEven_def power_int_minus Let_def)
  from roundToDouble_eq [OF _ _ _ _ this] show ?thesis
    by (simp add: power_int_minus)
qed

lemma product_double:
  "roundToDouble (70.5 * (4638707616191611 / 2 ^ 52)) = 5109826358461071 / 2 ^ 46"
proof -
  have "roundHalfEven (70.5 * (4638707616191611 / 2 ^ 52) / 2 powi (- 46)) = 5109826358461071"
    by (simp add: roundHalfEven_def power_int_minus Let_def)
  from roundToDouble_eq [OF _ _ _ _ this] show ?thesis
    by (simp add: power_int_minus)
qed

lemma scaled_double:
  "roundToDouble (5109826358461071 / 2 ^ 46 * 100) = 7984103685095423 / 2 ^ 40"
proof -
  have "roundHalfEven (5109826358461071 / 2 ^ 46 * 100 / 2 powi (- 40)) = 7984103685095423"
    by (simp add: roundHalfEven_def power_int_minus Let_def)
  from roundToDouble_eq [OF _ _ _ _ this] show ?thesis
    by (simp add: power_int_minus)
qed

lemma rounded_integer: "Math_round (7984103685095423 / 2 ^ 40) = 7261"
  by (simp add: Math_round_def)

lemma quotient_double: "roundToDouble (7261 / 100) = 5109474514740183 / 2 ^ 46"
proof -
  have "roundHalfEven (7261 / 100 / 2 powi (- 46)) = 5109474514740183"
    by (simp add: roundHalfEven_def power_int_minus Let_def)
  from roundToDouble_eq [OF _ _ _ _ this] show ?thesis
    by (simp add: power_int_minus)
qed

lemma amount_7050:
  "jsDivide (Math_round (jsMultiply (jsMultiply 70.5 (roundToDouble 1.03)) 100)) 100 =
     5109474514740183 / 2 ^ 46"
  by (simp only: jsMultiply_def jsDivide_def rate_double product_double scaled_double
        rounded_integer quotient_double)

lemma nearest_7261: "roundToDouble 72.61 = 5109474514740183 / 2 ^ 46"
proof -
  have "roundHalfEven (72.61 / 2 powi (- 46)) = 5109474514740183"
    by (simp add: roundHalfEven_def power_int_minus Let_def)
  from roundToDouble_eq [OF _ _ _ _ this] show ?thesis
    by (simp add: power_int_minus)
qed

lemma nearest_7262: "roundToDouble 72.62 = 638772275272745 / 2 ^ 43"
proof -
  have "roundHalfEven (72.62 / 2 powi (- 46)) = 5110178202181960"
    by (simp add: roundHalfEven_def power_int_minus Let_def)
  from roundToDouble_eq [OF _ _ _ _ this] show ?thesis
    by (simp add: power_int_minus)
qed

lemma nearest_72615: "roundToDouble 72.615 = 5109826358461071 / 2 ^ 46"
proof -
  have "roundHalfEven (72.615 / 2 powi (- 46)) = 5109826358461071"
    by (simp add: roundHalfEven_def power_int_minus Let_def)
  from roundToDouble_eq [OF _ _ _ _ this] show ?thesis
    by (simp add: power_int_minus)
qed

lemma product_above_midpoint: "\<bar>70.5 * roundToDouble 1.03 - 72.62\<bar> < (0.005 :: real)"
  unfolding rate_double by simp

lemma single_fixture_doubles:
  "parseJsonResponse decimalIndex (parsedNumbers SINGLE_CURRENCY_RESPONSE) =
     Inr [\<lparr> date = ''2025-01-15'', currency = ''USD'', baseCurrency = ''EUR'',
            rate = roundToDouble 1.03 \<rparr>,
          \<lparr> date = ''2025-01-16'', currency = ''USD'', baseCurrency = ''EUR'',
            rate = roundToDouble 1.0303 \<rparr>]"
  by (simp add: parsedNumbers_def decoder_defs fixture_defs)

lemma validate_usd_day_15:
  "validateQuery \<lparr> currencies = [''USD''], startDate = ''2025-01-15'',
                    endDate = Some ''2025-01-15'', frequency = None,
                    queryBaseCurrency = Some ''EUR'' \<rparr> = Inr ()"
  by (simp add: validateQuery_def CURRENCY_REGEX_test_def ISO_DATE_REGEX_test_def
        isUpperAZ_def isDigit09_def)

lemma getRate_single_doubles:
  "getRate decimalIndex jsonParseDoubles
     (newEcbClient \<lparr> configBaseCurrency = None \<rparr> (mockTransport ''single''))
     ''USD'' ''2025-01-15'' =
   Inr \<lparr> base = ''EUR'', targetCurrency = Some ''USD'',
         rates = [(''2025-01-15'', roundToDouble 1.03),
                  (''2025-01-16'', roundToDouble 1.0303)] \<rparr>"
  by (simp add: getRate_def getSingleCurrencyRates_def resolveQuery_def newEcbClient_def
        DEFAULT_BASE_CURRENCY_def validate_usd_day_15 fetchAndParse_def mockTransport_def
        parseSdmxJson_def jsonParseDoubles_def jsonParseFixtures_def single_fixture_doubles
        deriveBase_def)

text \<open>
  The model agrees with the expectations of the repository's tests of \<^verbatim>\<open>convert\<close>
  on the single-currency fixture: 100 gives 103, 33.33 gives 34.33, and the
  empty response gives \<^verbatim>\<open>null\<close>.
\<close>

lemma hundred_product: "roundToDouble (100 * (4638707616191611 / 2 ^ 52)) = 103"
proof -
  have "roundHalfEven (100 * (4638707616191611 / 2 ^ 52) / 2 powi (- 46)) = 7247980650299392"
    by (simp add: roundHalfEven_def power_int_minus Let_def)
  from roundToDouble_eq [OF _ _ _ _ this] show ?thesis
    by (simp add: power_int_minus)
qed

lemma hundred_scaled: "roundToDouble (103 * 100) = 10300"
proof -
  have "roundHalfEven (103 * 100 / 2 powi (- 39)) = 5662484883046400"
    by (simp add: roundHalfEven_def power_int_minus Let_def)
  from roundToDouble_eq [OF _ _ _ _ this] show ?thesis
    by (simp add: power_int_minus)
qed

lemma hundred_rounded: "Math_round 10300 = 10300"
  by (simp add: Math_round_def)

lemma hundred_quotient: "roundToDouble (10300 / 100) = 103"
proof -
  have "roundHalfEven (10300 / 100 / 2 powi (- 46)) = 7247980650299392"
    by (simp add: roundHalfEven_def power_int_minus Let_def)
  from roundToDouble_eq [OF _ _ _ _ this] show ?thesis
    by (simp add: power_int_minus)
qed

lemma amount_100:
  "jsDivide (Math_round (jsMultiply (jsMultiply 100 (roundToDouble 1.03)) 100)) 100 = 103"
  by (simp only: jsMultiply_def jsDivide_def rate_double hundred_product hundred_scaled
        hundred_rounded hundred_quotient)

lemma third_double: "roundToDouble 33.33 = 4690780486883082 / 2 ^ 47"
proof -
  have "roundHalfEven (33.33 / 2 powi (- 47)) = 4690780486883082"
    by (simp add: roundHalfEven_def power_int_minus Let_def)
  from roundToDouble_eq [OF _ _ _ _ this] show ?thesis
    by (simp add: power_int_minus)
qed

lemma third_product:
  "roundToDouble (4690780486883082 / 2 ^ 47 * (4638707616191611 / 2 ^ 52)) =
     4831503901489575 / 2 ^ 47"
proof -
  have "roundHalfEven (4690780486883082 / 2 ^ 47 * (4638707616191611 / 2 ^ 52) / 2 powi (- 47)) =
          4831503901489575"
    by (simp add: roundHalfEven_def power_int_minus Let_def)
  from roundToDouble_eq [OF _ _ _ _ this] show ?thesis
    by (simp add: power_int_minus)
qed

lemma third_scaled:
  "roundToDouble (4831503901489575 / 2 ^ 47 * 100) = 7549224846077461 / 2 ^ 41"
proof -
  have "roundHalfEven (4831503901489575 / 2 ^ 47 * 100 / 2 powi (- 41)) = 7549224846077461"
    by (simp add: roundHalfEven_def power_int_minus Let_def)
  from roundToDouble_eq [OF _ _ _ _ this] show ?thesis
    by (simp add: power_int_minus)
qed

lemma third_rounded: "Math_round (7549224846077461 / 2 ^ 41) = 3433"
  by (simp add: Math_round_def)

lemma third_quotient: "roundToDouble (3433 / 100) = 4831517975238410 / 2 ^ 47"
proof -
  have "roundHalfEven (3433 / 100 / 2 powi (- 47)) = 4831517975238410"
    by (simp add: roundHalfEven_def power_int_minus Let_def)
  from roundToDouble_eq [OF _ _ _ _ this] show ?thesis
    by (simp add: power_int_minus)
qed

lemma nearest_3433: "roundToDouble 34.33 = 4831517975238410 / 2 ^ 47"
proof -
  have "roundHalfEven (34.33 / 2 powi (- 47)) = 4831517975238410"
    by (simp add: roundHalfEven_def power_int_minus Let_def)
  from roundToDouble_eq [OF _ _ _ _ this] show ?thesis
    by (simp add: power_int_minus)
qed

lemma amount_3333:
  "jsDivide (Math_round (jsMultiply (jsMultiply (roundToDouble 33.33) (roundToDouble 1.03)) 100))
     100 = roundToDouble 34.33"
  by (simp only: jsMultiply_def jsDivide_def rate_double third_double third_product third_scaled
        third_rounded third_quotient nearest_3433)

lemma convert_on_the_tests:
  "convert decimalIndex jsonParseDoubles
     (newEcbClient \<lparr> configBaseCurrency = None \<rparr> (mockTransport ''single''))
     100 ''USD'' ''2025-01-15'' =
   Inr (Some \<lparr> amount = 103, conversionRate = roundToDouble 1.03,
               conversionDate = ''2025-01-15'', conversionCurrency = ''USD'' \<rparr>)"
  "convert decimalIndex jsonParseDoubles
     (newEcbClient \<lparr> configBaseCurrency = None \<rparr> (mockTransport ''single''))
     (roundToDouble 33.33) ''USD'' ''2025-01-15'' =
   Inr (Some \<lparr> amount = roundToDouble 34.33, conversionRate = roundToDouble 1.03,
               conversionDate = ''2025-01-15'', conversionCurrency = ''USD'' \<rparr>)"
  "convert decimalIndex jsonParseDoubles
     (newEcbClient \<lparr> configBaseCurrency = None \<rparr> (mockTransport ''empty''))
     100 ''USD'' ''2025-01-15'' = Inr None"
proof -
  let ?client = "newEcbClient \<lparr> configBaseCurrency = None \<rparr> (mockTransport ''single'')"
  have "convert decimalIndex jsonParseDoubles ?client 100 ''USD'' ''2025-01-15'' =
     Inr (Some \<lparr> amount =
                   jsDivide (Math_round (jsMultiply (jsMultiply 100 (roundToDouble 1.03)) 100))
                     100,
                 conversionRate = roundToDouble 1.03,
                 conversionDate = ''2025-01-15'', conversionCurrency = ''USD'' \<rparr>)"
    by (simp add: convert_def getRate_single_doubles)
  then show "convert decimalIndex jsonParseDoubles ?client 100 ''USD'' ''2025-01-15'' =
     Inr (Some \<lparr> amount = 103, conversionRate = roundToDouble 1.03,
                 conversionDate = ''2025-01-15'', conversionCurrency = ''USD'' \<rparr>)"
    unfolding amount_100 .
  have "convert decimalIndex jsonParseDoubles ?client (roundToDouble 33.33) ''USD''
          ''2025-01-15'' =
     Inr (Some \<lparr> amount =
                   jsDivide (Math_round (jsMultiply (jsMultiply (roundToDouble 33.33)
                                                        (roundToDouble 1.03)) 100))
                     100,
                 conversionRate = roundToDouble 1.03,
                 conversionDate = ''2025-01-15'', conversionCurrency = ''USD'' \<rparr>)"
    by (simp add: convert_def getRate_single_doubles)
  then show "convert decimalIndex jsonParseDoubles ?client (roundToDouble 33.33) ''USD''
          ''2025-01-15'' =
     Inr (Some \<lparr> amount = roundToDouble 34.33, conversionRate = roundToDouble 1.03,
                 conversionDate = ''2025-01-15'', conversionCurrency = ''USD'' \<rparr>)"
    unfolding amount_3333 .
  show "convert decimalIndex jsonParseDoubles
     (newEcbClient \<lparr> configBaseCurrency = None \<rparr> (mockTransport ''empty''))
     100 ''USD'' ''2025-01-15'' = Inr None"
    by (simp add: convert_def getRate_def getSingleCurrencyRates_def resolveQuery_def
        newEcbClient_def DEFAULT_BASE_CURRENCY_def validate_usd_day_15 fetchAndParse_def
        mockTransport_def parseSdmxJson_def jsonParseDoubles_def jsonParseFixtures_def
        parsedNumbers_def parseJsonResponse_def)
qed

text \<open>
  Claim C10. The null result, the propagation of the other failures and the use
  of the first entry of the rates map are as the claim says (\<open>convert_outcomes\<close>
  above); the amount is not. On the single-currency fixture, whose first rate is
  1.03, \<^verbatim>\<open>convert(70.5, "USD", "2025-01-15")\<close> returns the amount 72.61 (the
  double nearest to it), with the rate and date of the first entry. The product
  \<^verbatim>\<open>70.5 * 1.03\<close> is the number 72.615 as the runtime holds and prints it; it is
  72.615 in decimals, and the exact product of the two doubles lies above that
  midpoint, less than 0.005 away from 72.62: rounded to two decimals the product
  is 72.62, a different double. The amount is lost in the scaling: the double
  72.615 lies just below the decimal, \<^verbatim>\<open>* 100\<close> gives 7261.499999999999, and
  \<^verbatim>\<open>Math.round\<close> takes that down to 7261.
\<close>

theorem convert_amount_is_not_the_rounded_product:
  "convert decimalIndex jsonParseDoubles
     (newEcbClient \<lparr> configBaseCurrency = None \<rparr> (mockTransport ''single''))
     70.5 ''USD'' ''2025-01-15'' =
   Inr (Some \<lparr> amount = roundToDouble 72.61, conversionRate = roundToDouble 1.03,
               conversionDate = ''2025-01-15'', conversionCurrency = ''USD'' \<rparr>)
   \<and> jsMultiply 70.5 (roundToDouble 1.03) = roundToDouble 72.615
   \<and> \<bar>70.5 * roundToDouble 1.03 - 72.62\<bar> < 0.005
   \<and> \<bar>70.5 * 1.03 - 72.62\<bar> \<le> (0.005 :: real)
   \<and> roundToDouble 72.61 \<noteq> roundToDouble 72.62
   \<and> \<bar>roundToDouble 72.61 - 72.61\<bar> < 1 / 10 ^ 14
   \<and> \<bar>roundToDouble 72.62 - 72.62\<bar> < 1 / 10 ^ 14"
proof -
  have "convert decimalIndex jsonParseDoubles
     (newEcbClient \<lparr> configBaseCurrency = None \<rparr> (mockTransport ''single''))
     70.5 ''USD'' ''2025-01-15'' =
   Inr (Some \<lparr> amount =
                 jsDivide (Math_round (jsMultiply (jsMultiply 70.5 (roundToDouble 1.03)) 100))
                   100,
               conversionRate = roundToDouble 1.03,
               conversionDate = ''2025-01-15'', conversionCurrency = ''USD'' \<rparr>)"
    by (simp add: convert_def getRate_single_doubles)
  then have "convert decimalIndex jsonParseDoubles
     (newEcbClient \<lparr> configBaseCurrency = None \<rparr> (mockTransport ''single''))
     70.5 ''USD'' ''2025-01-15'' =
   Inr (Some \<lparr> amount = roundToDouble 72.61, conversionRate = roundToDouble 1.03,
               conversionDate = ''2025-01-15'', conversionCurrency = ''USD'' \<rparr>)"
    unfolding amount_7050 nearest_7261 .
  moreover have "jsMultiply 70.5 (roundToDouble 1.03) = roundToDouble 72.615"
    unfolding jsMultiply_def rate_double product_double nearest_72615 ..
  moreover note product_above_midpoint
  moreover have "\<bar>70.5 * 1.03 - 72.62\<bar> \<le> (0.005 :: real)" by simp
  moreover have "roundToDouble 72.61 \<noteq> roundToDouble 72.62"
    unfolding nearest_7261 nearest_7262 by simp
  moreover have "\<bar>roundToDouble 72.61 - 72.61\<bar> < 1 / 10 ^ 14"
    unfolding nearest_7261 by simp
  moreover have "\<bar>roundToDouble 72.62 - 72.62\<bar> < 1 / 10 ^ 14"
    unfolding nearest_7262 by simp
  ultimately show ?thesis by (intro conjI)
qed

end
